theory Spec2Isabelle
  imports Main "HOL-Library.Sublist"
begin

section \<open>JavaScript values\<close>

text \<open>
  The values that travel through the player: message payloads, command arguments,
  option values. Numbers are integers here (fractions are outside the model). An object
  is the list of its properties in insertion order.
\<close>

datatype jsval =
    Undefined
  | Null
  | Bool bool
  | Num int
  | Str string
  | Arr "jsval list"
  | Obj "(string \<times> jsval) list"

text \<open>Assignment \<open>o[k] = v\<close>: an existing property keeps its place, a new one goes last.\<close>

fun set_prop :: "string \<Rightarrow> 'v \<Rightarrow> (string \<times> 'v) list \<Rightarrow> (string \<times> 'v) list" where
  "set_prop k v [] = [(k, v)]"
| "set_prop k v ((k', v') # ps) =
     (if k' = k then (k, v) # ps else (k', v') # set_prop k v ps)"

text \<open>Copying properties one after the other, as the spread \<open>{ ...a, ...b }\<close> does.\<close>

fun assign :: "(string \<times> 'v) list \<Rightarrow> (string \<times> 'v) list \<Rightarrow> (string \<times> 'v) list" where
  "assign tgt [] = tgt"
| "assign tgt ((k, v) # ps) = assign (set_prop k v tgt) ps"

definition hexdigits :: string where
  "hexdigits = ''0123456789abcdef''"

function string_of_nat :: "nat \<Rightarrow> string" where
  "string_of_nat n =
     (if n < 10 then [hexdigits ! n] else string_of_nat (n div 10) @ [hexdigits ! (n mod 10)])"
  by pat_completeness auto
termination
  by (relation "measure (\<lambda>n. n)") auto

definition string_of_int :: "int \<Rightarrow> string" where
  "string_of_int i = (if i < 0 then CHR ''-'' # string_of_nat (nat (- i)) else string_of_nat (nat i))"

fun indexed :: "nat \<Rightarrow> 'a list \<Rightarrow> (string \<times> 'a) list" where
  "indexed i [] = []"
| "indexed i (x # xs) = (string_of_nat i, x) # indexed (Suc i) xs"

text \<open>
  The own enumerable properties a spread copies: the fields of an object, the indexed
  elements of an array, the indexed characters of a string, nothing for the rest.
\<close>

fun own_props :: "jsval \<Rightarrow> (string \<times> jsval) list" where
  "own_props (Obj fs) = fs"
| "own_props (Arr xs) = indexed 0 xs"
| "own_props (Str s) = indexed 0 (map (\<lambda>c. Str [c]) s)"
| "own_props _ = []"

text \<open>\<open>{ ...a, ...b }\<close>\<close>

definition spread2 :: "jsval \<Rightarrow> jsval \<Rightarrow> jsval" where
  "spread2 a b = Obj (assign (assign [] (own_props a)) (own_props b))"

text \<open>
  A property read \<open>v.k\<close> for the names this program reads (never \<open>length\<close> or an
  index): a field of an object, \<open>undefined\<close> on everything else that can be read.
  Reading from \<open>undefined\<close> or \<open>null\<close> throws; the callers below check for that.
\<close>

fun js_get :: "jsval \<Rightarrow> string \<Rightarrow> jsval" where
  "js_get (Obj fs) k = (case map_of fs k of Some v \<Rightarrow> v | None \<Rightarrow> Undefined)"
| "js_get _ k = Undefined"

fun truthy :: "jsval \<Rightarrow> bool" where
  "truthy Undefined = False"
| "truthy Null = False"
| "truthy (Bool b) = b"
| "truthy (Num n) = (n \<noteq> 0)"
| "truthy (Str s) = (s \<noteq> [])"
| "truthy (Arr xs) = True"
| "truthy (Obj fs) = True"

fun nullish :: "jsval \<Rightarrow> bool" where
  "nullish Undefined = True"
| "nullish Null = True"
| "nullish _ = False"

fun join :: "string \<Rightarrow> string list \<Rightarrow> string" where
  "join sep [] = []"
| "join sep [x] = x"
| "join sep (x # y # ys) = x @ sep @ join sep (y # ys)"

text \<open>\<open>String(v)\<close>\<close>

fun js_String :: "jsval \<Rightarrow> string" where
  "js_String Undefined = ''undefined''"
| "js_String Null = ''null''"
| "js_String (Bool b) = (if b then ''true'' else ''false'')"
| "js_String (Num n) = string_of_int n"
| "js_String (Str s) = s"
| "js_String (Arr xs) = join '','' (map (\<lambda>x. if nullish x then [] else js_String x) xs)"
| "js_String (Obj fs) = ''[object Object]''"

subsection \<open>JSON.stringify\<close>

definition hex2 :: "nat \<Rightarrow> string" where
  "hex2 n = [hexdigits ! (n div 16), hexdigits ! (n mod 16)]"

definition json_char :: "char \<Rightarrow> string" where
  "json_char c =
     (if c = CHR 0x22 then [CHR 0x5C, CHR 0x22]
      else if c = CHR 0x5C then [CHR 0x5C, CHR 0x5C]
      else if c = CHR 0x08 then [CHR 0x5C, CHR ''b'']
      else if c = CHR 0x0C then [CHR 0x5C, CHR ''f'']
      else if c = CHR 0x0A then [CHR 0x5C, CHR ''n'']
      else if c = CHR 0x0D then [CHR 0x5C, CHR ''r'']
      else if c = CHR 0x09 then [CHR 0x5C, CHR ''t'']
      else if (of_char c :: nat) < 32 then [CHR 0x5C, CHR ''u'', CHR ''0'', CHR ''0''] @ hex2 (of_char c)
      else [c])"

definition json_quote :: "string \<Rightarrow> string" where
  "json_quote s = [CHR 0x22] @ concat (map json_char s) @ [CHR 0x22]"

text \<open>
  \<open>JSON.stringify\<close> answers \<open>undefined\<close> (here \<open>None\<close>) for \<open>undefined\<close>; inside an
  array that becomes \<open>null\<close>, and inside an object the property is left out.
\<close>

fun JSON_stringify :: "jsval \<Rightarrow> string option"
  and json_elements :: "jsval list \<Rightarrow> string list"
  and json_members :: "(string \<times> jsval) list \<Rightarrow> string list" where
  "JSON_stringify Undefined = None"
| "JSON_stringify Null = Some ''null''"
| "JSON_stringify (Bool b) = Some (if b then ''true'' else ''false'')"
| "JSON_stringify (Num n) = Some (string_of_int n)"
| "JSON_stringify (Str s) = Some (json_quote s)"
| "JSON_stringify (Arr xs) = Some (''['' @ join '','' (json_elements xs) @ '']'')"
| "JSON_stringify (Obj fs) = Some (''{'' @ join '','' (json_members fs) @ ''}'')"
| "json_elements [] = []"
| "json_elements (x # xs) =
     (case JSON_stringify x of None \<Rightarrow> ''null'' | Some t \<Rightarrow> t) # json_elements xs"
| "json_members [] = []"
| "json_members ((k, v) # fs) =
     (case JSON_stringify v of
        None \<Rightarrow> json_members fs
      | Some t \<Rightarrow> (json_quote k @ '':'' @ t) # json_members fs)"

text \<open>The text \<open>JSON.stringify\<close> gives for an object (it always gives one).\<close>

definition stringify_object :: "(string \<times> jsval) list \<Rightarrow> string" where
  "stringify_object fs = ''{'' @ join '','' (json_members fs) @ ''}''"


section \<open>The frame element\<close>

text \<open>
  What the program touches of a DOM element. \<open>node\<close> is the element's identity (two
  references are the same element when their \<open>node\<close> agrees). A \<open>load\<close> listener is
  the \<open>emitListening\<close> closure of a player, named by that player's reference.
\<close>

datatype callback = EmitListening nat

record element =
  node :: nat
  tagName :: string
  attributes :: "(string \<times> string) list"
  parentNode :: "nat option"
  isConnected :: bool
  load_listeners :: "callback list"

text \<open>An iframe has a content window exactly while it is connected to the document.\<close>

definition contentWindow :: "element \<Rightarrow> bool" where
  "contentWindow e = isConnected e"

definition createElement :: "nat \<Rightarrow> string \<Rightarrow> element" where
  "createElement n tag =
     \<lparr>node = n, tagName = tag, attributes = [], parentNode = None, isConnected = False,
      load_listeners = []\<rparr>"

definition setAttribute :: "string \<Rightarrow> string \<Rightarrow> element \<Rightarrow> element" where
  "setAttribute k v e = e\<lparr>attributes := set_prop k v (attributes e)\<rparr>"

definition getAttribute :: "element \<Rightarrow> string \<Rightarrow> string option" where
  "getAttribute e k = map_of (attributes e) k"

section \<open>Options, embed URL, frame construction\<close>

text \<open>
  A handler is a function of the caller. Of what it does when it is called, the model
  keeps the calls it makes on the player it is given (\<open>event.target\<close>), in order, and
  whether it then throws; \<open>ident\<close> tells apart two functions that do the same. A call
  names the handler it adds or removes: the running function itself, or another one.
  Whatever else a handler does (\<open>destroy\<close>, other players) leaves the handler arrays
  alone and is an action of its own.
\<close>

datatype call =
    CallCommand string jsval
  | CallAddEventListener string who
  | CallRemoveEventListener string who
  | CallSetSize jsval jsval
and who = Itself | Function handler
and handler = Handler (ident: nat) (body: "call list") (throws: bool)

text \<open>What the caller passes (\<open>YT.PlayerOptions\<close>): every field may be missing.\<close>

record PlayerOptions =
  given_id :: "string option"
  given_videoId :: "string option"
  given_width :: jsval
  given_height :: jsval
  given_title :: "string option"
  given_host :: "string option"
  given_events :: "(string \<times> handler) list option"
  given_playerVars :: "(string \<times> jsval) list option"

text \<open>\<open>this.options\<close>: the caller's options over the defaults.\<close>

record options =
  opt_id :: string
  videoId :: string
  width :: jsval
  height :: jsval
  title :: string
  host :: string
  opt_events :: "(string \<times> handler) list"
  playerVars :: "(string \<times> jsval) list"

definition defaults :: "nat \<Rightarrow> options" where
  "defaults counter =
     \<lparr>opt_id = ''c'' @ string_of_nat counter, videoId = [], width = Num 640, height = Num 390,
      title = ''video player'', host = ''https://www.youtube.com'', opt_events = [],
      playerVars = []\<rparr>"

text \<open>
  \<open>{ ...defaults, ...options }\<close> followed by \<open>this.options[key] ??= value\<close> for every
  default: a field the caller left out, or gave as \<open>null\<close> or \<open>undefined\<close>, takes the
  default.
\<close>

definition or_default :: "'a option \<Rightarrow> 'a \<Rightarrow> 'a" where
  "or_default given d = (case given of None \<Rightarrow> d | Some v \<Rightarrow> v)"

definition merge_options :: "options \<Rightarrow> PlayerOptions \<Rightarrow> options" where
  "merge_options d g =
     \<lparr>opt_id = or_default (given_id g) (opt_id d),
      videoId = or_default (given_videoId g) (videoId d),
      width = (if nullish (given_width g) then width d else given_width g),
      height = (if nullish (given_height g) then height d else given_height g),
      title = or_default (given_title g) (title d),
      host = or_default (given_host g) (host d),
      opt_events = or_default (given_events g) (opt_events d),
      playerVars = or_default (given_playerVars g) (playerVars d)\<rparr>"

subsection \<open>URLSearchParams\<close>

definition HEXDIGITS :: string where
  "HEXDIGITS = ''0123456789ABCDEF''"

definition url_unreserved :: string where
  "url_unreserved =
     ''ABCDEFGHIJKLMNOPQRSTUVWXYZabcdefghijklmnopqrstuvwxyz0123456789*-._''"

definition urlencode_char :: "char \<Rightarrow> string" where
  "urlencode_char c =
     (if c \<in> set url_unreserved then [c]
      else if c = CHR '' '' then ''+''
      else [CHR ''%'', HEXDIGITS ! ((of_char c :: nat) div 16), HEXDIGITS ! ((of_char c :: nat) mod 16)])"

definition urlencode :: "string \<Rightarrow> string" where
  "urlencode s = concat (map urlencode_char s)"

fun params_set :: "string \<Rightarrow> string \<Rightarrow> (string \<times> string) list \<Rightarrow> (string \<times> string) list" where
  "params_set k v [] = [(k, v)]"
| "params_set k v ((k', v') # ps) =
     (if k' = k then (k, v) # filter (\<lambda>p. fst p \<noteq> k) ps else (k', v') # params_set k v ps)"

definition params_toString :: "(string \<times> string) list \<Rightarrow> string" where
  "params_toString ps = join ''&'' (map (\<lambda>(k, v). urlencode k @ ''='' @ urlencode v) ps)"

definition getEmbedUrl :: "options \<Rightarrow> string" where
  "getEmbedUrl opts =
     (let params = map (\<lambda>(k, v). (k, js_String v))
                     (filter (\<lambda>(k, v). \<not> nullish v) (playerVars opts));
          params = params_set ''enablejsapi'' ''1'' params
      in host opts @ ''/embed/'' @ videoId opts @ ''?'' @ params_toString params)"

text \<open>\<open>createIframe\<close>; \<open>n\<close> is the identity of the new element.\<close>

definition createIframe :: "nat \<Rightarrow> options \<Rightarrow> element" where
  "createIframe n opts =
     (let frame = createElement n ''IFRAME'';
          frame = setAttribute ''frameborder'' ''0'' frame;
          frame = setAttribute ''allowfullscreen'' ''1'' frame;
          frame = setAttribute ''title'' (''YouTube '' @ title opts) frame;
          frame = (if truthy (width opts)
                   then setAttribute ''width'' (js_String (width opts)) frame else frame);
          frame = (if truthy (height opts)
                   then setAttribute ''height'' (js_String (height opts)) frame else frame)
      in setAttribute ''src'' (getEmbedUrl opts) frame)"

section \<open>The player instance\<close>

datatype error =
    TargetMustBeElement
  | DuplicatePlayerId string
  | TypeError

record PlayerEvent =
  target :: nat
  type :: jsval
  data :: jsval

text \<open>
  The fields of a \<open>Player\<close>. \<open>self\<close> is the object's own reference (\<open>this\<close>).
  \<open>#events\<close> maps a name to an array object that is changed in place: \<open>events\<close>
  gives the reference of the array, \<open>arrays\<close> the elements each array holds now, and
  \<open>next_array\<close> is the reference the next new array takes. The last three fields
  record what the instance did to its collaborators: the \<open>postMessage(text,
  targetOrigin)\<close> calls on the frame's content window, the \<open>console.log\<close> calls, and
  the calls of registered handlers.
  When the frame was adopted, \<open>originalElement\<close> is the iframe itself and is read
  through \<open>iframe\<close>.
\<close>

record player =
  self :: nat
  this_id :: string
  options :: options
  originalElement :: element
  iframe :: element
  messageQueue :: "jsval list"
  ready :: bool
  pollReadiness :: "nat option"
  info :: jsval
  events :: "string \<Rightarrow> nat option"
  arrays :: "nat \<Rightarrow> handler list"
  next_array :: nat
  posted :: "(string \<times> string) list"
  console :: "element list"
  invoked :: "(handler \<times> PlayerEvent) list"

definition stopPolling :: "player \<Rightarrow> player" where
  "stopPolling p = (if pollReadiness p \<noteq> None then p\<lparr>pollReadiness := None\<rparr> else p)"

definition payload :: "player \<Rightarrow> jsval \<Rightarrow> (string \<times> jsval) list" where
  "payload p d =
     assign (assign [] (own_props d)) [(''id'', Str (this_id p)), (''channel'', Str ''widget'')]"

definition sendMessage :: "jsval \<Rightarrow> player \<Rightarrow> player" where
  "sendMessage d p =
     (if \<not> contentWindow (iframe p) then p\<lparr>console := console p @ [iframe p]\<rparr>
      else p\<lparr>posted := posted p @ [(stringify_object (payload p d), host (options p))]\<rparr>)"

definition command :: "string \<Rightarrow> jsval \<Rightarrow> jsval" where
  "command func args = Obj [(''event'', Str ''command''), (''func'', Str func), (''args'', args)]"

definition sendCommand :: "string \<Rightarrow> jsval \<Rightarrow> player \<Rightarrow> player" where
  "sendCommand func args p =
     (if ready p then sendMessage (command func args) p
      else p\<lparr>messageQueue := messageQueue p @ [command func args]\<rparr>)"

definition addEventListener :: "string \<Rightarrow> handler \<Rightarrow> player \<Rightarrow> player" where
  "addEventListener name h p =
     (case events p name of
        Some list \<Rightarrow> p\<lparr>arrays := (arrays p)(list := arrays p list @ [h])\<rparr>
      | None \<Rightarrow> sendCommand ''addEventListener'' (Arr [Str name])
                 (p\<lparr>events := (events p)(name \<mapsto> next_array p),
                    arrays := (arrays p)(next_array p := [h]),
                    next_array := next_array p + 1\<rparr>))"

definition removeEventListener :: "string \<Rightarrow> handler \<Rightarrow> player \<Rightarrow> player" where
  "removeEventListener name h p =
     (case events p name of
        None \<Rightarrow> p
      | Some list \<Rightarrow>
          (let p = p\<lparr>arrays := (arrays p)(list := remove1 h (arrays p list))\<rparr>
           in if length (arrays p list) = 0
              then (let p = sendCommand ''removeEventListener'' (Arr [Str name]) p
                    in p\<lparr>events := (events p)(name := None)\<rparr>)
              else p))"

definition emitListening :: "player \<Rightarrow> player" where
  "emitListening p = sendMessage (Obj [(''event'', Str ''listening'')]) p"

subsection \<open>The command surface\<close>

definition loadVideoById :: "jsval list \<Rightarrow> player \<Rightarrow> player" where
  "loadVideoById args = sendCommand ''loadVideoById'' (Arr args)"

definition cueVideoById :: "jsval list \<Rightarrow> player \<Rightarrow> player" where
  "cueVideoById args = sendCommand ''cueVideoById'' (Arr args)"

definition loadVideoByUrl :: "jsval list \<Rightarrow> player \<Rightarrow> player" where
  "loadVideoByUrl args = sendCommand ''loadVideoByUrl'' (Arr args)"

definition cueVideoByUrl :: "jsval list \<Rightarrow> player \<Rightarrow> player" where
  "cueVideoByUrl args = sendCommand ''cueVideoByUrl'' (Arr args)"

definition playVideo :: "player \<Rightarrow> player" where
  "playVideo = sendCommand ''playVideo'' (Arr [])"

definition pauseVideo :: "player \<Rightarrow> player" where
  "pauseVideo = sendCommand ''pauseVideo'' (Arr [])"

definition stopVideo :: "player \<Rightarrow> player" where
  "stopVideo = sendCommand ''stopVideo'' (Arr [])"

definition seekTo :: "jsval \<Rightarrow> jsval \<Rightarrow> player \<Rightarrow> player" where
  "seekTo seconds allowSeekAhead = sendCommand ''seekTo'' (Arr [seconds, allowSeekAhead])"

text \<open>\<open>mute\<close> and \<open>unMute\<close> call \<open>#sendCommand\<close> with one argument: \<open>args\<close> is \<open>undefined\<close>.\<close>

definition mute :: "player \<Rightarrow> player" where
  "mute = sendCommand ''mute'' Undefined"

definition unMute :: "player \<Rightarrow> player" where
  "unMute = sendCommand ''unMute'' Undefined"

definition setVolume :: "jsval \<Rightarrow> player \<Rightarrow> player" where
  "setVolume volume = sendCommand ''setVolume'' (Arr [volume])"

definition setPlaybackRate :: "jsval \<Rightarrow> player \<Rightarrow> player" where
  "setPlaybackRate suggestedRate = sendCommand ''setPlaybackRate'' (Arr [suggestedRate])"

definition setLoop :: "jsval \<Rightarrow> player \<Rightarrow> player" where
  "setLoop loopPlaylists = sendCommand ''setLoop'' (Arr [loopPlaylists])"

definition setShuffle :: "jsval \<Rightarrow> player \<Rightarrow> player" where
  "setShuffle shufflePlaylist = sendCommand ''setShuffle'' (Arr [shufflePlaylist])"

definition setSize :: "jsval \<Rightarrow> jsval \<Rightarrow> player \<Rightarrow> player" where
  "setSize w h p =
     p\<lparr>iframe := setAttribute ''height'' (js_String h) (setAttribute ''width'' (js_String w) (iframe p))\<rparr>"

subsection \<open>Events and inbound messages\<close>

text \<open>A call the running handler \<open>h0\<close> makes on the player.\<close>

fun the_handler :: "handler \<Rightarrow> who \<Rightarrow> handler" where
  "the_handler h0 Itself = h0"
| "the_handler h0 (Function h) = h"

fun perform :: "handler \<Rightarrow> call \<Rightarrow> player \<Rightarrow> player" where
  "perform h0 (CallCommand func args) p = sendCommand func args p"
| "perform h0 (CallAddEventListener name h) p = addEventListener name (the_handler h0 h) p"
| "perform h0 (CallRemoveEventListener name h) p = removeEventListener name (the_handler h0 h) p"
| "perform h0 (CallSetSize w h) p = setSize w h p"

text \<open>
  \<open>list.forEach((handler) => { handler(event) })\<close> on the array \<open>list\<close>, with \<open>n\<close>
  indices still to visit from index \<open>k\<close>. The length is read once, before the first
  call; each visit reads the array as it is then, so an index the array has lost in the
  meantime is skipped; a handler that throws ends the loop.
\<close>

fun forEach :: "nat \<Rightarrow> nat \<Rightarrow> nat \<Rightarrow> PlayerEvent \<Rightarrow> player \<Rightarrow> player" where
  "forEach 0 k list ev p = p"
| "forEach (Suc n) k list ev p =
     (if k < length (arrays p list)
      then (let h = arrays p list ! k;
                p = p\<lparr>invoked := invoked p @ [(h, ev)]\<rparr>;
                p = fold (perform h) (body h) p
            in if throws h then p else forEach n (Suc k) list ev p)
      else forEach n (Suc k) list ev p)"

definition emit :: "jsval \<Rightarrow> jsval \<Rightarrow> player \<Rightarrow> player" where
  "emit ty d p =
     (case (case ty of Str name \<Rightarrow> events p name | _ \<Rightarrow> None) of
        None \<Rightarrow> p
      | Some list \<Rightarrow>
          forEach (length (arrays p list)) 0 list \<lparr>target = self p, type = ty, data = d\<rparr> p)"

text \<open>
  \<open>#handleMessage\<close>. \<open>#emit\<close> is its last statement, so a handler that throws ends
  it with the state reached.
\<close>

definition handleMessage :: "jsval \<Rightarrow> player \<Rightarrow> player" where
  "handleMessage d p =
     (let p = (if length (messageQueue p) > 0
               then (fold sendMessage (messageQueue p) p)\<lparr>messageQueue := []\<rparr> else p);
          p = stopPolling p;
          p = p\<lparr>ready := True\<rparr>
      in if js_get d ''event'' = Str ''initialDelivery'' then p\<lparr>info := js_get d ''info''\<rparr>
         else if js_get d ''event'' = Str ''infoDelivery''
           then p\<lparr>info := spread2 (info p) (js_get d ''info'')\<rparr>
         else if js_get d ''event'' = Str ''apiInfoDelivery'' then p
         else emit (js_get d ''event'') (js_get d ''info'') p)"

subsection \<open>The getter surface\<close>

text \<open>\<open>this.#info.k\<close>: a TypeError when the snapshot is \<open>undefined\<close> or \<open>null\<close>.\<close>

definition read_info :: "string \<Rightarrow> player \<Rightarrow> error + jsval" where
  "read_info k p = (if nullish (info p) then Inl TypeError else Inr (js_get (info p) k))"

definition getPlayerState :: "player \<Rightarrow> error + jsval" where
  "getPlayerState = read_info ''playerState''"

definition isMuted :: "player \<Rightarrow> error + jsval" where
  "isMuted = read_info ''muted''"

definition getVolume :: "player \<Rightarrow> error + jsval" where
  "getVolume = read_info ''volume''"

definition getAvailablePlaybackRates :: "player \<Rightarrow> error + jsval" where
  "getAvailablePlaybackRates = read_info ''availablePlaybackRates''"

definition getAvailableQualityLevels :: "player \<Rightarrow> error + jsval" where
  "getAvailableQualityLevels = read_info ''availableQualityLevels''"

definition getPlaybackQuality :: "player \<Rightarrow> error + jsval" where
  "getPlaybackQuality = read_info ''playbackQuality''"

definition getDuration :: "player \<Rightarrow> error + jsval" where
  "getDuration = read_info ''duration''"

definition getCurrentTime :: "player \<Rightarrow> error + jsval" where
  "getCurrentTime = read_info ''currentTime''"

definition getVideoLoadedFraction :: "player \<Rightarrow> error + jsval" where
  "getVideoLoadedFraction = read_info ''videoLoadedFraction''"

definition getVideoUrl :: "player \<Rightarrow> error + jsval" where
  "getVideoUrl = read_info ''videoUrl''"

definition getVideoEmbedCode :: "player \<Rightarrow> error + jsval" where
  "getVideoEmbedCode = read_info ''videoEmbedCode''"

definition getVideoId :: "player \<Rightarrow> error + jsval" where
  "getVideoId p =
     (case read_info ''videoData'' p of
        Inl e \<Rightarrow> Inl e
      | Inr vd \<Rightarrow> Inr (if nullish vd then Undefined else js_get vd ''video_id''))"

definition getIframe :: "player \<Rightarrow> element" where
  "getIframe p = iframe p"

subsection \<open>Teardown of the instance's own state\<close>

text \<open>
  The part of \<open>destroy\<close> before \<open>messageHandlers.delete\<close>: stop polling, then put the
  original element back when the frame was created by the library. Replacing through
  \<open>parentNode\<close> throws when the frame has no parent; the second component is that error.
\<close>

definition destroy_frame :: "player \<Rightarrow> player \<times> error option" where
  "destroy_frame p =
     (let p = stopPolling p
      in if node (iframe p) \<noteq> node (originalElement p)
         then (case parentNode (iframe p) of
                 None \<Rightarrow> (p, Some TypeError)
               | Some q \<Rightarrow>
                   (p\<lparr>originalElement :=
                        (originalElement p)\<lparr>parentNode := Some q, isConnected := isConnected (iframe p)\<rparr>,
                      iframe := (iframe p)\<lparr>parentNode := None, isConnected := False\<rparr>\<rparr>, None))
         else (p, None))"

section \<open>The process-wide router and the constructor\<close>

text \<open>
  The module state: the \<open>Player\<close> objects by reference, the \<open>messageHandlers\<close> map
  (each entry is the closure that calls \<open>#handleMessage\<close> of the player it names), the
  \<open>attachedListeners\<close> set, the number of \<open>message\<close> listeners put on \<open>window\<close>, the
  \<open>id\<close> counter, and the next unused reference.
\<close>

record world =
  players :: "nat \<Rightarrow> player option"
  messageHandlers :: "string \<Rightarrow> nat option"
  attachedListeners :: "string set"
  window_listeners :: nat
  id_counter :: nat
  fresh :: nat

definition world0 :: world where
  "world0 =
     \<lparr>players = Map.empty, messageHandlers = Map.empty, attachedListeners = {},
      window_listeners = 0, id_counter = 0, fresh = 0\<rparr>"

definition attachGlobalListener :: "string \<Rightarrow> world \<Rightarrow> world" where
  "attachGlobalListener h w =
     (let hasListener = (attachedListeners w \<noteq> {});
          w = w\<lparr>attachedListeners := insert h (attachedListeners w)\<rparr>
      in if hasListener then w else w\<lparr>window_listeners := window_listeners w + 1\<rparr>)"

text \<open>
  An inbound \<open>message\<close> event: its origin, and what \<open>JSON.parse(event.data)\<close> gives
  (\<open>None\<close> when it throws).
\<close>

record MessageEvent =
  origin :: string
  parsed :: "jsval option"

text \<open>
  The listener of \<open>attachGlobalListener\<close>. Reading \<open>data.id\<close> of \<open>null\<close> throws inside
  the listener, which changes nothing; the keys of \<open>messageHandlers\<close> are strings, so
  only a string \<open>data.id\<close> finds a handler.
\<close>

definition message_listener :: "MessageEvent \<Rightarrow> world \<Rightarrow> world" where
  "message_listener ev w =
     (if origin ev \<in> attachedListeners w
      then (case parsed ev of
              None \<Rightarrow> w
            | Some d \<Rightarrow>
                if nullish d then w
                else (case js_get d ''id'' of
                        Str i \<Rightarrow>
                          (case messageHandlers w i of
                             None \<Rightarrow> w
                           | Some r \<Rightarrow>
                               (case players w r of
                                  None \<Rightarrow> w
                                | Some p \<Rightarrow> w\<lparr>players := (players w)(r \<mapsto> handleMessage d p)\<rparr>))
                      | _ \<Rightarrow> w))
      else w)"

text \<open>A \<open>message\<close> event on \<open>window\<close> runs every listener attached there.\<close>

definition receive :: "MessageEvent \<Rightarrow> world \<Rightarrow> world" where
  "receive ev w = (message_listener ev ^^ window_listeners w) w"

datatype target = TargetId string | TargetElement element

text \<open>
  \<open>element.parentNode?.replaceChild(iframe, element)\<close>: the frame takes the place of
  the element; nothing happens when the element has no parent.
\<close>

definition replaceChild_opt :: "element \<Rightarrow> element \<Rightarrow> element \<times> element" where
  "replaceChild_opt frame element =
     (case parentNode element of
        None \<Rightarrow> (frame, element)
      | Some q \<Rightarrow>
          (frame\<lparr>parentNode := Some q, isConnected := isConnected element\<rparr>,
           element\<lparr>parentNode := None, isConnected := False\<rparr>))"

text \<open>The field initialisers of the class.\<close>

definition new_player :: "nat \<Rightarrow> options \<Rightarrow> element \<Rightarrow> element \<Rightarrow> player" where
  "new_player this opts frame element =
     \<lparr>self = this, this_id = opt_id opts, options = opts, originalElement = element,
      iframe = frame, messageQueue = [], ready = False, pollReadiness = None, info = Obj [],
      events = Map.empty, arrays = (\<lambda>list. []), next_array = 0, posted = [],
      console = [], invoked = []\<rparr>"

text \<open>
  The constructor, from the choice of the frame to the registration of the initial event
  callbacks: the object as these statements leave it. \<open>this\<close> is the reference of the
  new object, \<open>timer\<close> the handle \<open>setInterval\<close> returns, \<open>n\<close> the identity of a
  created element.
\<close>

definition build_player :: "nat \<Rightarrow> nat \<Rightarrow> nat \<Rightarrow> options \<Rightarrow> element \<Rightarrow> player" where
  "build_player this timer n opts element =
     (let frame = (if tagName element = ''IFRAME'' then element else createIframe n opts);
          frame = setAttribute ''id'' (''widget'' @ opt_id opts) frame;
          (frame, original) =
             (if node frame \<noteq> node element then replaceChild_opt frame element
              else (frame, frame));
          p = new_player this opts frame original;
          p = emitListening p;
          p = p\<lparr>pollReadiness := Some timer\<rparr>;
          p = p\<lparr>iframe := (iframe p)\<lparr>load_listeners :=
                 load_listeners (iframe p) @ [EmitListening this]\<rparr>\<rparr>
      in fold (\<lambda>(name, h). addEventListener name h) (opt_events opts) p)"

text \<open>\<open>typeof target === 'string' ? document.getElementById(target) : target\<close>\<close>

definition resolve :: "(string \<Rightarrow> element option) \<Rightarrow> target \<Rightarrow> element option" where
  "resolve getElementById tgt =
     (case tgt of TargetId s \<Rightarrow> getElementById s | TargetElement e \<Rightarrow> Some e)"

text \<open>
  The whole constructor. \<open>getElementById\<close> is the document at the time of the call. The
  new object, the interval and a created element take the next unused references, and a
  created element differs from the target. Every effect up to a \<open>throw\<close> stays: the
  result is the error or the new reference, together with the module state.
\<close>

definition construct ::
    "(string \<Rightarrow> element option) \<Rightarrow> target \<Rightarrow> PlayerOptions \<Rightarrow> world \<Rightarrow> (error + nat) \<times> world" where
  "construct getElementById tgt given w =
     (let opts = merge_options (defaults (id_counter w)) given;
          w = w\<lparr>id_counter := id_counter w + 1\<rparr>
      in case resolve getElementById tgt of
           None \<Rightarrow> (Inl TargetMustBeElement, w)
         | Some element \<Rightarrow>
             (let this = fresh w;
                  timer = fresh w + 1;
                  n = max (fresh w + 2) (node element + 1);
                  w = w\<lparr>fresh := n + 1\<rparr>;
                  p = build_player this timer n opts element;
                  w = w\<lparr>players := (players w)(this \<mapsto> p)\<rparr>;
                  w = attachGlobalListener (host opts) w
              in if messageHandlers w (opt_id opts) \<noteq> None
                 then (Inl (DuplicatePlayerId (opt_id opts)), w)
                 else (Inr this, w\<lparr>messageHandlers := (messageHandlers w)(opt_id opts \<mapsto> this)\<rparr>)))"

text \<open>\<open>destroy\<close> of the player at \<open>r\<close>.\<close>

definition destroy :: "nat \<Rightarrow> world \<Rightarrow> error option \<times> world" where
  "destroy r w =
     (case players w r of
        None \<Rightarrow> (None, w)
      | Some p \<Rightarrow>
          (let (p, err) = destroy_frame p;
               w = w\<lparr>players := (players w)(r \<mapsto> p)\<rparr>
           in case err of
                Some e \<Rightarrow> (Some e, w)
              | None \<Rightarrow> (None, w\<lparr>messageHandlers := (messageHandlers w)(this_id p := None)\<rparr>)))"

section \<open>What can happen to an instance\<close>

text \<open>
  The interval calls \<open>emitListening\<close> while it is set; a \<open>load\<close> event on the frame runs
  the \<open>load\<close> listeners registered there, of which this instance's is its own
  \<open>emitListening\<close>.
\<close>

definition interval_fires :: "player \<Rightarrow> player" where
  "interval_fires p = (if pollReadiness p \<noteq> None then emitListening p else p)"

definition run_callback :: "callback \<Rightarrow> player \<Rightarrow> player" where
  "run_callback cb p = (case cb of EmitListening r \<Rightarrow> if r = self p then emitListening p else p)"

definition frame_loads :: "player \<Rightarrow> player" where
  "frame_loads p = fold run_callback (load_listeners (iframe p)) p"

text \<open>
  Everything that reaches a constructed instance: a call of a public method, a message
  handed over by the router, the interval, a \<open>load\<close> event, and other code moving the
  frame in the document (which gives or takes its content window). The registered
  handlers of a domain event run inside the handling of its message.
\<close>

datatype action =
    Command string jsval
  | AddEventListener string handler
  | RemoveEventListener string handler
  | SetSize jsval jsval
  | Message jsval
  | IntervalFires
  | FrameLoads
  | Destroy
  | FrameMoved "nat option" bool

fun step :: "action \<Rightarrow> player \<Rightarrow> player" where
  "step (Command func args) p = sendCommand func args p"
| "step (AddEventListener name h) p = addEventListener name h p"
| "step (RemoveEventListener name h) p = removeEventListener name h p"
| "step (SetSize w h) p = setSize w h p"
| "step (Message d) p = handleMessage d p"
| "step IntervalFires p = interval_fires p"
| "step FrameLoads p = frame_loads p"
| "step Destroy p = fst (destroy_frame p)"
| "step (FrameMoved q c) p = p\<lparr>iframe := (iframe p)\<lparr>parentNode := q, isConnected := c\<rparr>\<rparr>"

definition run :: "action list \<Rightarrow> player \<Rightarrow> player" where
  "run acts p = fold step acts p"

section \<open>What can happen in the page\<close>

text \<open>Something happens to the player at \<open>r\<close>.\<close>

definition act :: "nat \<Rightarrow> action \<Rightarrow> world \<Rightarrow> world" where
  "act r a w =
     (case players w r of
        None \<Rightarrow> w
      | Some p \<Rightarrow> w\<lparr>players := (players w)(r \<mapsto> step a p)\<rparr>)"

text \<open>
  The actions that reach a player directly. A message reaches it only through the
  listener on \<open>window\<close>, and \<open>destroy\<close> also changes the router.
\<close>

fun direct :: "action \<Rightarrow> bool" where
  "direct (Message d) = False"
| "direct Destroy = False"
| "direct _ = True"

text \<open>
  The module states a page can reach: players are constructed and destroyed, messages
  arrive on \<open>window\<close>, and things happen to the players.
\<close>

inductive reachable :: "world \<Rightarrow> bool" where
  start: "reachable world0"
| constructed: "reachable w \<Longrightarrow> reachable (snd (construct getElementById tgt given w))"
| destroyed: "reachable w \<Longrightarrow> reachable (snd (destroy r w))"
| received: "reachable w \<Longrightarrow> reachable (receive ev w)"
| acted: "reachable w \<Longrightarrow> direct a \<Longrightarrow> reachable (act r a w)"

section \<open>Notions used in the statements\<close>

text \<open>What \<open>#sendMessage(d)\<close> hands to \<open>postMessage\<close>: the text and the target origin.\<close>

definition wire :: "player \<Rightarrow> jsval \<Rightarrow> string \<times> string" where
  "wire p d = (stringify_object (payload p d), host (options p))"

text \<open>The instance's own \<open>load\<close> callback is registered on its frame exactly once.\<close>

definition load_registered :: "player \<Rightarrow> bool" where
  "load_registered p = (count_list (load_listeners (iframe p)) (EmitListening (self p)) = 1)"

text \<open>The handlers registered for a name, in order, if the name has an array.\<close>

definition listeners :: "player \<Rightarrow> string \<Rightarrow> handler list option" where
  "listeners p name = map_option (arrays p) (events p name)"

text \<open>No event name is mapped to an empty handler array.\<close>

definition no_empty_lists :: "player \<Rightarrow> bool" where
  "no_empty_lists p = (Some [] \<notin> range (listeners p))"

text \<open>
  Different names have different arrays, every array of a name has been allocated, and
  none is empty.
\<close>

definition arrays_ok :: "player \<Rightarrow> bool" where
  "arrays_ok p =
     (inj_on (events p) (dom (events p)) \<and> ran (events p) \<subseteq> {..<next_array p}
      \<and> no_empty_lists p)"



text \<open>The property names of an object, as a spread sees them, are pairwise different.\<close>

definition unique_names :: "jsval \<Rightarrow> bool" where
  "unique_names v = distinct (map fst (own_props v))"

text \<open>The own property \<open>k\<close> of a value, if it has one.\<close>

definition field :: "jsval \<Rightarrow> string \<Rightarrow> jsval option" where
  "field v k = map_of (own_props v) k"

section \<open>Example pages and players\<close>

definition div_in_page :: element where
  "div_in_page =
     \<lparr>node = 100, tagName = ''DIV'', attributes = [(''id'', ''player'')], parentNode = Some 1,
      isConnected = True, load_listeners = []\<rparr>"

definition div_detached :: element where
  "div_detached =
     \<lparr>node = 101, tagName = ''DIV'', attributes = [], parentNode = None,
      isConnected = False, load_listeners = []\<rparr>"

definition iframe_in_page :: element where
  "iframe_in_page =
     \<lparr>node = 102, tagName = ''IFRAME'',
      attributes = [(''src'', ''https://www.youtube.com/embed/abc?enablejsapi=1'')],
      parentNode = Some 1, isConnected = True, load_listeners = []\<rparr>"

definition page :: "string \<Rightarrow> element option" where
  "page = [''player'' \<mapsto> div_in_page]"

definition no_options :: PlayerOptions where
  "no_options =
     \<lparr>given_id = None, given_videoId = None, given_width = Undefined,
      given_height = Undefined, given_title = None, given_host = None, given_events = None,
      given_playerVars = None\<rparr>"

text \<open>\<open>new Player('player', { videoId: 'abc' })\<close> on a fresh page.\<close>

definition world_A :: world where
  "world_A = snd (construct page (TargetId ''player'') (no_options\<lparr>given_videoId := Some ''abc''\<rparr>) world0)"

definition player_A :: player where
  "player_A = the (players world_A 0)"

text \<open>\<open>new Player(div, {})\<close> for a div that is in no document.\<close>

definition player_D :: player where
  "player_D = the (players (snd (construct page (TargetElement div_detached) no_options world0)) 0)"

text \<open>\<open>new Player(iframe, {})\<close> for an iframe already in the page.\<close>

definition player_F :: player where
  "player_F = the (players (snd (construct page (TargetElement iframe_in_page) no_options world0)) 0)"


text \<open>An \<open>onReady\<close> callback that does nothing.\<close>

definition quiet_handler :: handler where
  "quiet_handler = Handler 7 [] False"



text \<open>
  After \<open>world_A\<close>:
  \<open>new Player(iframe, { id: 'c0', host: 'https://evil.example', events: { onReady } })\<close>,
  whose identifier is that of the live first player.
\<close>

definition duplicate_attempt :: "(error + nat) \<times> world" where
  "duplicate_attempt =
     construct page (TargetElement iframe_in_page)
       (no_options\<lparr>given_id := Some ''c0'', given_host := Some ''https://evil.example'',
          given_events := Some [(''onReady'', quiet_handler)]\<rparr>) world_A"

text \<open>The object this failed construction leaves behind.\<close>

definition player_C :: player where
  "player_C = the (players (snd duplicate_attempt) 102)"

definition onReady_message :: jsval where
  "onReady_message = Obj [(''event'', Str ''onReady''), (''id'', Str ''c0''), (''info'', Null)]"

text \<open>The first three statements of \<open>#handleMessage\<close>: flush, stop polling, become ready.\<close>

definition flushed :: "player \<Rightarrow> player" where
  "flushed p =
     (stopPolling (if length (messageQueue p) > 0
                   then (fold sendMessage (messageQueue p) p)\<lparr>messageQueue := []\<rparr> else p))
       \<lparr>ready := True\<rparr>"

text \<open>The first player after a message and \<open>destroy()\<close>: ready, its frame out of the page.\<close>

definition player_A_destroyed :: player where
  "player_A_destroyed = step Destroy (handleMessage onReady_message player_A)"

text \<open>The first player once the remote end has answered.\<close>

definition player_A_ready :: player where
  "player_A_ready = handleMessage onReady_message player_A"

definition volume_message :: jsval where
  "volume_message =
     Obj [(''event'', Str ''infoDelivery''), (''id'', Str ''c0''),
          (''info'', Obj [(''volume'', Num 50)])]"

definition muted_message :: jsval where
  "muted_message =
     Obj [(''event'', Str ''infoDelivery''), (''id'', Str ''c0''),
          (''info'', Obj [(''muted'', Bool True)])]"

definition initial_message :: jsval where
  "initial_message =
     Obj [(''event'', Str ''initialDelivery''), (''id'', Str ''c0''),
          (''info'', Obj [(''duration'', Num 212)])]"


text \<open>The three message kinds that are not domain events.\<close>

definition delivery_kinds :: "jsval set" where
  "delivery_kinds = {Str ''initialDelivery'', Str ''infoDelivery'', Str ''apiInfoDelivery''}"

text \<open>The handlers a message is handed to: those of its name, when it is a domain event.\<close>

definition dispatched :: "jsval \<Rightarrow> player \<Rightarrow> handler list" where
  "dispatched d p =
     (if js_get d ''event'' \<in> delivery_kinds then []
      else (case js_get d ''event'' of
              Str name \<Rightarrow> (case listeners p name of Some hs \<Rightarrow> hs | None \<Rightarrow> [])
            | _ \<Rightarrow> []))"

text \<open>The probe message of the handshake.\<close>

definition listening :: jsval where
  "listening = Obj [(''event'', Str ''listening'')]"




text \<open>A message sent from an origin no player was configured with.\<close>

definition stranger_message :: MessageEvent where
  "stranger_message = \<lparr>origin = ''https://evil.example'', parsed = Some onReady_message\<rparr>"



section \<open>Basic facts about the operations\<close>

subsection \<open>Objects\<close>

lemma map_of_set_prop: "map_of (set_prop k v ps) x = ((map_of ps)(k \<mapsto> v)) x"
  by (induction ps) auto

lemma keys_set_prop: "fst ` set (set_prop k v ps) = insert k (fst ` set ps)"
  by (induction ps) force+

lemma distinct_set_prop: "distinct (map fst ps) \<Longrightarrow> distinct (map fst (set_prop k v ps))"
proof (induction ps)
  case Nil
  then show ?case by simp
next
  case (Cons q qs)
  obtain k' v' where q: "q = (k', v')" by (cases q)
  have "k' \<noteq> k \<Longrightarrow> k' \<notin> fst ` set (set_prop k v qs)"
    using Cons.prems q by (simp add: keys_set_prop)
  with Cons q show ?case by auto
qed

lemma distinct_assign: "distinct (map fst tgt) \<Longrightarrow> distinct (map fst (assign tgt ps))"
  by (induction ps arbitrary: tgt) (auto simp: distinct_set_prop)

lemma map_of_assign_other:
  "k \<notin> fst ` set ps \<Longrightarrow> map_of (assign tgt ps) k = map_of tgt k"
  by (induction ps arbitrary: tgt) (auto simp: map_of_set_prop)

lemma map_of_assign:
  "distinct (map fst ps) \<Longrightarrow> map_of (assign tgt ps) x = (map_of tgt ++ map_of ps) x"
proof (induction ps arbitrary: tgt)
  case Nil
  then show ?case by simp
next
  case (Cons q qs)
  obtain k v where q: "q = (k, v)" by (cases q)
  from Cons.prems q have k: "map_of qs k = None" and d: "distinct (map fst qs)"
    by (auto simp: map_of_eq_None_iff)
  have "map_of (assign tgt (q # qs)) x = (map_of (set_prop k v tgt) ++ map_of qs) x"
    using Cons.IH [OF d] q by simp
  also have "\<dots> = (map_of tgt ++ map_of (q # qs)) x"
    using k q by (cases "x = k") (simp_all add: map_add_def map_of_set_prop split: option.splits)
  finally show ?case .
qed

lemma field_spread2:
  assumes "unique_names a" and "unique_names b"
  shows "field (spread2 a b) k = (field a ++ field b) k"
proof -
  have "map_of (assign [] (own_props a)) k = map_of (own_props a) k" for k
    using assms(1) by (simp add: map_of_assign unique_names_def)
  then show ?thesis
    using assms(2)
    by (simp add: field_def spread2_def map_of_assign unique_names_def map_add_def
          split: option.splits)
qed

lemma unique_names_spread2: "unique_names (spread2 a b)"
  by (simp add: unique_names_def spread2_def distinct_assign)

subsection \<open>Sending\<close>

lemma sendMessage_keeps:
  "messageQueue (sendMessage d p) = messageQueue p"
  "ready (sendMessage d p) = ready p"
  "pollReadiness (sendMessage d p) = pollReadiness p"
  "info (sendMessage d p) = info p"
  "events (sendMessage d p) = events p"
  "arrays (sendMessage d p) = arrays p"
  "next_array (sendMessage d p) = next_array p"
  "iframe (sendMessage d p) = iframe p"
  "originalElement (sendMessage d p) = originalElement p"
  "options (sendMessage d p) = options p"
  "this_id (sendMessage d p) = this_id p"
  "self (sendMessage d p) = self p"
  "invoked (sendMessage d p) = invoked p"
  by (simp_all add: sendMessage_def)

lemma wire_same:
  "this_id q = this_id p \<Longrightarrow> options q = options p \<Longrightarrow> wire q d = wire p d"
  by (simp add: wire_def payload_def)

lemma sendMessage_posted:
  "posted (sendMessage d p) = (if contentWindow (iframe p) then posted p @ [wire p d] else posted p)"
  by (simp add: sendMessage_def wire_def)

lemma sendMessage_console:
  "console (sendMessage d p) =
     (if contentWindow (iframe p) then console p else console p @ [iframe p])"
  by (simp add: sendMessage_def)

lemma fold_sendMessage_keeps:
  "messageQueue (fold sendMessage ms p) = messageQueue p"
  "ready (fold sendMessage ms p) = ready p"
  "pollReadiness (fold sendMessage ms p) = pollReadiness p"
  "info (fold sendMessage ms p) = info p"
  "events (fold sendMessage ms p) = events p"
  "arrays (fold sendMessage ms p) = arrays p"
  "next_array (fold sendMessage ms p) = next_array p"
  "iframe (fold sendMessage ms p) = iframe p"
  "originalElement (fold sendMessage ms p) = originalElement p"
  "options (fold sendMessage ms p) = options p"
  "this_id (fold sendMessage ms p) = this_id p"
  "self (fold sendMessage ms p) = self p"
  "invoked (fold sendMessage ms p) = invoked p"
  by (induction ms arbitrary: p; simp add: sendMessage_keeps)+

lemma fold_sendMessage_posted:
  "posted (fold sendMessage ms p) =
     (if contentWindow (iframe p) then posted p @ map (wire p) ms else posted p)"
proof (induction ms arbitrary: p)
  case Nil
  then show ?case by simp
next
  case (Cons m ms)
  have w: "wire (sendMessage m p) = wire p"
    by (rule ext) (rule wire_same; simp add: sendMessage_keeps)
  have "posted (fold sendMessage (m # ms) p) = posted (fold sendMessage ms (sendMessage m p))"
    by simp
  also have "\<dots> =
      (if contentWindow (iframe p) then posted (sendMessage m p) @ map (wire p) ms
       else posted (sendMessage m p))"
    by (simp only: Cons.IH w sendMessage_keeps)
  also have "\<dots> =
      (if contentWindow (iframe p) then posted p @ map (wire p) (m # ms) else posted p)"
    by (simp add: sendMessage_posted)
  finally show ?case .
qed

lemma stopPolling_keeps:
  "pollReadiness (stopPolling p) = None"
  "messageQueue (stopPolling p) = messageQueue p"
  "ready (stopPolling p) = ready p"
  "info (stopPolling p) = info p"
  "events (stopPolling p) = events p"
  "arrays (stopPolling p) = arrays p"
  "next_array (stopPolling p) = next_array p"
  "iframe (stopPolling p) = iframe p"
  "originalElement (stopPolling p) = originalElement p"
  "options (stopPolling p) = options p"
  "this_id (stopPolling p) = this_id p"
  "self (stopPolling p) = self p"
  "invoked (stopPolling p) = invoked p"
  "posted (stopPolling p) = posted p"
  "console (stopPolling p) = console p"
  by (simp_all add: stopPolling_def)

lemma sendCommand_keeps:
  "ready (sendCommand f a p) = ready p"
  "pollReadiness (sendCommand f a p) = pollReadiness p"
  "info (sendCommand f a p) = info p"
  "events (sendCommand f a p) = events p"
  "arrays (sendCommand f a p) = arrays p"
  "next_array (sendCommand f a p) = next_array p"
  "iframe (sendCommand f a p) = iframe p"
  "originalElement (sendCommand f a p) = originalElement p"
  "options (sendCommand f a p) = options p"
  "this_id (sendCommand f a p) = this_id p"
  "self (sendCommand f a p) = self p"
  "invoked (sendCommand f a p) = invoked p"
  by (simp_all add: sendCommand_def sendMessage_keeps)

lemma sendCommand_queue:
  "messageQueue (sendCommand f a p) =
     (if ready p then messageQueue p else messageQueue p @ [command f a])"
  by (simp add: sendCommand_def sendMessage_keeps)

lemma sendCommand_posted:
  "posted (sendCommand f a p) =
     (if ready p \<and> contentWindow (iframe p) then posted p @ [wire p (command f a)] else posted p)"
  by (simp add: sendCommand_def sendMessage_posted)

lemma sendCommand_console:
  "console (sendCommand f a p) =
     (if ready p \<and> \<not> contentWindow (iframe p) then console p @ [iframe p] else console p)"
  by (simp add: sendCommand_def sendMessage_console)

text \<open>Every method of the command surface is one call of \<open>#sendCommand\<close>.\<close>

lemma command_surface:
  "loadVideoById args p = sendCommand ''loadVideoById'' (Arr args) p"
  "cueVideoById args p = sendCommand ''cueVideoById'' (Arr args) p"
  "loadVideoByUrl args p = sendCommand ''loadVideoByUrl'' (Arr args) p"
  "cueVideoByUrl args p = sendCommand ''cueVideoByUrl'' (Arr args) p"
  "playVideo p = sendCommand ''playVideo'' (Arr []) p"
  "pauseVideo p = sendCommand ''pauseVideo'' (Arr []) p"
  "stopVideo p = sendCommand ''stopVideo'' (Arr []) p"
  "seekTo seconds allowSeekAhead p = sendCommand ''seekTo'' (Arr [seconds, allowSeekAhead]) p"
  "mute p = sendCommand ''mute'' Undefined p"
  "unMute p = sendCommand ''unMute'' Undefined p"
  "setVolume volume p = sendCommand ''setVolume'' (Arr [volume]) p"
  "setPlaybackRate suggestedRate p = sendCommand ''setPlaybackRate'' (Arr [suggestedRate]) p"
  "setLoop loopPlaylists p = sendCommand ''setLoop'' (Arr [loopPlaylists]) p"
  "setShuffle shufflePlaylist p = sendCommand ''setShuffle'' (Arr [shufflePlaylist]) p"
  by (simp_all add: loadVideoById_def cueVideoById_def loadVideoByUrl_def cueVideoByUrl_def
        playVideo_def pauseVideo_def stopVideo_def seekTo_def mute_def unMute_def setVolume_def
        setPlaybackRate_def setLoop_def setShuffle_def)

lemma emitListening_keeps:
  "messageQueue (emitListening p) = messageQueue p"
  "ready (emitListening p) = ready p"
  "pollReadiness (emitListening p) = pollReadiness p"
  "info (emitListening p) = info p"
  "events (emitListening p) = events p"
  "arrays (emitListening p) = arrays p"
  "next_array (emitListening p) = next_array p"
  "iframe (emitListening p) = iframe p"
  "originalElement (emitListening p) = originalElement p"
  "options (emitListening p) = options p"
  "this_id (emitListening p) = this_id p"
  "self (emitListening p) = self p"
  "invoked (emitListening p) = invoked p"
  by (simp_all add: emitListening_def sendMessage_keeps)

lemma addEventListener_keeps:
  "ready (addEventListener n h p) = ready p"
  "pollReadiness (addEventListener n h p) = pollReadiness p"
  "info (addEventListener n h p) = info p"
  "iframe (addEventListener n h p) = iframe p"
  "originalElement (addEventListener n h p) = originalElement p"
  "options (addEventListener n h p) = options p"
  "this_id (addEventListener n h p) = this_id p"
  "self (addEventListener n h p) = self p"
  "invoked (addEventListener n h p) = invoked p"
  by (simp_all add: addEventListener_def sendCommand_keeps split: option.splits)

lemma removeEventListener_keeps:
  "ready (removeEventListener n h p) = ready p"
  "pollReadiness (removeEventListener n h p) = pollReadiness p"
  "info (removeEventListener n h p) = info p"
  "iframe (removeEventListener n h p) = iframe p"
  "originalElement (removeEventListener n h p) = originalElement p"
  "options (removeEventListener n h p) = options p"
  "this_id (removeEventListener n h p) = this_id p"
  "self (removeEventListener n h p) = self p"
  "invoked (removeEventListener n h p) = invoked p"
  by (simp_all add: removeEventListener_def Let_def sendCommand_keeps split: option.splits)

lemma addEventListener_queue:
  "ready p \<Longrightarrow> messageQueue (addEventListener n h p) = messageQueue p"
  by (simp add: addEventListener_def sendCommand_queue split: option.splits)

lemma removeEventListener_queue:
  "ready p \<Longrightarrow> messageQueue (removeEventListener n h p) = messageQueue p"
  by (simp add: removeEventListener_def Let_def sendCommand_queue split: option.splits)

lemma setSize_keeps:
  "ready (setSize w h p) = ready p"
  "pollReadiness (setSize w h p) = pollReadiness p"
  "messageQueue (setSize w h p) = messageQueue p"
  "info (setSize w h p) = info p"
  "events (setSize w h p) = events p"
  "arrays (setSize w h p) = arrays p"
  "next_array (setSize w h p) = next_array p"
  "originalElement (setSize w h p) = originalElement p"
  "options (setSize w h p) = options p"
  "this_id (setSize w h p) = this_id p"
  "self (setSize w h p) = self p"
  "invoked (setSize w h p) = invoked p"
  "posted (setSize w h p) = posted p"
  "console (setSize w h p) = console p"
  "load_listeners (iframe (setSize w h p)) = load_listeners (iframe p)"
  "contentWindow (iframe (setSize w h p)) = contentWindow (iframe p)"
  "node (iframe (setSize w h p)) = node (iframe p)"
  "parentNode (iframe (setSize w h p)) = parentNode (iframe p)"
  by (simp_all add: setSize_def setAttribute_def contentWindow_def)

subsection \<open>Handlers at work\<close>





lemma perform_keeps:
  "ready (perform h0 c p) = ready p"
  "pollReadiness (perform h0 c p) = pollReadiness p"
  "info (perform h0 c p) = info p"
  "originalElement (perform h0 c p) = originalElement p"
  "options (perform h0 c p) = options p"
  "this_id (perform h0 c p) = this_id p"
  "self (perform h0 c p) = self p"
  "invoked (perform h0 c p) = invoked p"
  "load_listeners (iframe (perform h0 c p)) = load_listeners (iframe p)"
  "contentWindow (iframe (perform h0 c p)) = contentWindow (iframe p)"
  "node (iframe (perform h0 c p)) = node (iframe p)"
  "parentNode (iframe (perform h0 c p)) = parentNode (iframe p)"
  by (cases c;
      simp add: sendCommand_keeps addEventListener_keeps removeEventListener_keeps setSize_keeps)+

lemma perform_queue: "ready p \<Longrightarrow> messageQueue (perform h0 c p) = messageQueue p"
  by (cases c)
     (simp_all add: sendCommand_queue addEventListener_queue removeEventListener_queue
        setSize_keeps)

lemma fold_perform_keeps:
  "ready (fold (perform h0) cs p) = ready p"
  "pollReadiness (fold (perform h0) cs p) = pollReadiness p"
  "info (fold (perform h0) cs p) = info p"
  "originalElement (fold (perform h0) cs p) = originalElement p"
  "options (fold (perform h0) cs p) = options p"
  "this_id (fold (perform h0) cs p) = this_id p"
  "self (fold (perform h0) cs p) = self p"
  "invoked (fold (perform h0) cs p) = invoked p"
  "load_listeners (iframe (fold (perform h0) cs p)) = load_listeners (iframe p)"
  "contentWindow (iframe (fold (perform h0) cs p)) = contentWindow (iframe p)"
  "node (iframe (fold (perform h0) cs p)) = node (iframe p)"
  "parentNode (iframe (fold (perform h0) cs p)) = parentNode (iframe p)"
  by (induction cs arbitrary: p; simp add: perform_keeps)+

lemma fold_perform_queue:
  "ready p \<Longrightarrow> messageQueue (fold (perform h0) cs p) = messageQueue p"
  by (induction cs arbitrary: p) (simp_all add: perform_queue perform_keeps)


lemma forEach_keeps:
  "ready (forEach n k list ev p) = ready p"
  "pollReadiness (forEach n k list ev p) = pollReadiness p"
  "info (forEach n k list ev p) = info p"
  "originalElement (forEach n k list ev p) = originalElement p"
  "options (forEach n k list ev p) = options p"
  "this_id (forEach n k list ev p) = this_id p"
  "self (forEach n k list ev p) = self p"
  "load_listeners (iframe (forEach n k list ev p)) = load_listeners (iframe p)"
  "contentWindow (iframe (forEach n k list ev p)) = contentWindow (iframe p)"
  "node (iframe (forEach n k list ev p)) = node (iframe p)"
  "parentNode (iframe (forEach n k list ev p)) = parentNode (iframe p)"
  by (induction n arbitrary: k p; simp add: Let_def fold_perform_keeps)+

lemma forEach_queue:
  "ready p \<Longrightarrow> messageQueue (forEach n k list ev p) = messageQueue p"
  by (induction n arbitrary: k p) (simp_all add: Let_def fold_perform_keeps fold_perform_queue)


lemma emit_keeps:
  "ready (emit ty d p) = ready p"
  "pollReadiness (emit ty d p) = pollReadiness p"
  "info (emit ty d p) = info p"
  "originalElement (emit ty d p) = originalElement p"
  "options (emit ty d p) = options p"
  "this_id (emit ty d p) = this_id p"
  "self (emit ty d p) = self p"
  "load_listeners (iframe (emit ty d p)) = load_listeners (iframe p)"
  "contentWindow (iframe (emit ty d p)) = contentWindow (iframe p)"
  "node (iframe (emit ty d p)) = node (iframe p)"
  "parentNode (iframe (emit ty d p)) = parentNode (iframe p)"
  by (simp_all add: emit_def forEach_keeps split: option.splits jsval.splits)

lemma emit_queue: "ready p \<Longrightarrow> messageQueue (emit ty d p) = messageQueue p"
  by (simp add: emit_def forEach_queue split: option.splits jsval.splits)


lemma handleMessage_flushed:
  "handleMessage d p =
     (let q = flushed p
      in if js_get d ''event'' = Str ''initialDelivery'' then q\<lparr>info := js_get d ''info''\<rparr>
         else if js_get d ''event'' = Str ''infoDelivery''
           then q\<lparr>info := spread2 (info q) (js_get d ''info'')\<rparr>
         else if js_get d ''event'' = Str ''apiInfoDelivery'' then q
         else emit (js_get d ''event'') (js_get d ''info'') q)"
  by (simp add: handleMessage_def flushed_def Let_def)

lemma flushed_keeps:
  "ready (flushed p)"
  "pollReadiness (flushed p) = None"
  "messageQueue (flushed p) = []"
  "info (flushed p) = info p"
  "events (flushed p) = events p"
  "arrays (flushed p) = arrays p"
  "next_array (flushed p) = next_array p"
  "iframe (flushed p) = iframe p"
  "originalElement (flushed p) = originalElement p"
  "options (flushed p) = options p"
  "this_id (flushed p) = this_id p"
  "self (flushed p) = self p"
  "invoked (flushed p) = invoked p"
  by (simp_all add: flushed_def stopPolling_keeps fold_sendMessage_keeps)

lemma flushed_posted:
  "posted (flushed p) =
     (if contentWindow (iframe p) then posted p @ map (wire p) (messageQueue p) else posted p)"
  by (simp add: flushed_def stopPolling_keeps fold_sendMessage_posted)

lemma handleMessage_keeps:
  "ready (handleMessage d p)"
  "pollReadiness (handleMessage d p) = None"
  "messageQueue (handleMessage d p) = []"
  "originalElement (handleMessage d p) = originalElement p"
  "options (handleMessage d p) = options p"
  "this_id (handleMessage d p) = this_id p"
  "self (handleMessage d p) = self p"
  "load_listeners (iframe (handleMessage d p)) = load_listeners (iframe p)"
  "contentWindow (iframe (handleMessage d p)) = contentWindow (iframe p)"
  "node (iframe (handleMessage d p)) = node (iframe p)"
  "parentNode (iframe (handleMessage d p)) = parentNode (iframe p)"
  by (simp_all add: handleMessage_flushed Let_def flushed_keeps emit_keeps emit_queue)


text \<open>A message that is handed to no handler: the player then only flushes.\<close>

lemma forEach_nothing: "arrays p list = [] \<Longrightarrow> forEach n k list ev p = p"
  by (induction n arbitrary: k) simp_all

lemma dispatched_no_events: "events p = Map.empty \<Longrightarrow> dispatched d p = []"
  by (simp add: dispatched_def listeners_def split: jsval.splits)

lemma handleMessage_undispatched:
  assumes "dispatched d p = []"
  shows "posted (handleMessage d p) =
           (if contentWindow (iframe p) then posted p @ map (wire p) (messageQueue p) else posted p)"
    and "iframe (handleMessage d p) = iframe p"
    and "events (handleMessage d p) = events p"
    and "arrays (handleMessage d p) = arrays p"
    and "invoked (handleMessage d p) = invoked p"
    and "console (handleMessage d p) = console (flushed p)"
proof -
  have "emit (js_get d ''event'') (js_get d ''info'') (flushed p) = flushed p"
    if "js_get d ''event'' \<notin> delivery_kinds"
    using assms that
    by (auto simp: dispatched_def emit_def listeners_def flushed_keeps forEach_nothing
          split: jsval.splits option.splits)
  then have "handleMessage d p = flushed p \<or> (\<exists>i. handleMessage d p = (flushed p)\<lparr>info := i\<rparr>)"
    by (auto simp: handleMessage_flushed Let_def delivery_kinds_def)
  then show "posted (handleMessage d p) =
      (if contentWindow (iframe p) then posted p @ map (wire p) (messageQueue p) else posted p)"
    and "iframe (handleMessage d p) = iframe p"
    and "events (handleMessage d p) = events p"
    and "arrays (handleMessage d p) = arrays p"
    and "invoked (handleMessage d p) = invoked p"
    and "console (handleMessage d p) = console (flushed p)"
    by (auto simp: flushed_keeps flushed_posted)
qed

lemma fold_run_callback_keeps:
  "messageQueue (fold run_callback cs p) = messageQueue p"
  "ready (fold run_callback cs p) = ready p"
  "pollReadiness (fold run_callback cs p) = pollReadiness p"
  "events (fold run_callback cs p) = events p"
  "arrays (fold run_callback cs p) = arrays p"
  "next_array (fold run_callback cs p) = next_array p"
  "iframe (fold run_callback cs p) = iframe p"
  "originalElement (fold run_callback cs p) = originalElement p"
  "options (fold run_callback cs p) = options p"
  "this_id (fold run_callback cs p) = this_id p"
  "self (fold run_callback cs p) = self p"
  by (induction cs arbitrary: p;
      simp add: run_callback_def emitListening_keeps split: callback.splits)+

lemma destroy_frame_keeps:
  "messageQueue (fst (destroy_frame p)) = messageQueue p"
  "ready (fst (destroy_frame p)) = ready p"
  "pollReadiness (fst (destroy_frame p)) = None"
  "events (fst (destroy_frame p)) = events p"
  "arrays (fst (destroy_frame p)) = arrays p"
  "next_array (fst (destroy_frame p)) = next_array p"
  "options (fst (destroy_frame p)) = options p"
  "this_id (fst (destroy_frame p)) = this_id p"
  "self (fst (destroy_frame p)) = self p"
  "posted (fst (destroy_frame p)) = posted p"
  "load_listeners (iframe (fst (destroy_frame p))) = load_listeners (iframe p)"
  by (simp_all add: destroy_frame_def Let_def stopPolling_keeps split: option.splits)

lemma step_keeps:
  "options (step a p) = options p"
  "this_id (step a p) = this_id p"
  "self (step a p) = self p"
  "load_listeners (iframe (step a p)) = load_listeners (iframe p)"
  by (cases a;
      simp add: sendCommand_keeps addEventListener_keeps removeEventListener_keeps
        setSize_keeps handleMessage_keeps interval_fires_def emitListening_keeps
        frame_loads_def fold_run_callback_keeps destroy_frame_keeps)+

lemma run_keeps:
  "options (run acts p) = options p"
  "this_id (run acts p) = this_id p"
  "self (run acts p) = self p"
  "load_listeners (iframe (run acts p)) = load_listeners (iframe p)"
  unfolding run_def by (induction acts arbitrary: p; simp add: step_keeps)+

text \<open>Once ready, polling stopped and the queue empty, every later action keeps it so.\<close>

lemma step_stays_ready:
  assumes "ready p" and "pollReadiness p = None" and "messageQueue p = []"
  shows "ready (step a p) \<and> pollReadiness (step a p) = None \<and> messageQueue (step a p) = []"
  using assms
  by (cases a)
     (simp_all add: sendCommand_keeps sendCommand_queue addEventListener_keeps
        addEventListener_queue removeEventListener_keeps removeEventListener_queue setSize_keeps
        handleMessage_keeps interval_fires_def frame_loads_def fold_run_callback_keeps
        destroy_frame_keeps)

lemma run_stays_ready:
  assumes "ready p" and "pollReadiness p = None" and "messageQueue p = []"
  shows "ready (run acts p) \<and> pollReadiness (run acts p) = None \<and> messageQueue (run acts p) = []"
  using assms unfolding run_def
proof (induction acts arbitrary: p)
  case Nil
  then show ?case by simp
next
  case (Cons a acts)
  have "ready (step a p) \<and> pollReadiness (step a p) = None \<and> messageQueue (step a p) = []"
    using Cons.prems by (rule step_stays_ready)
  then show ?case
    using Cons.IH [of "step a p"] by simp
qed

section \<open>The example players, evaluated\<close>

lemmas construct_defs =
  construct_def build_player_def resolve_def Let_def world0_def page_def div_in_page_def div_detached_def iframe_in_page_def
  no_options_def merge_options_def defaults_def or_default_def createIframe_def
  createElement_def setAttribute_def replaceChild_opt_def new_player_def emitListening_def
  sendMessage_def contentWindow_def attachGlobalListener_def getEmbedUrl_def params_toString_def
  urlencode_def urlencode_char_def url_unreserved_def HEXDIGITS_def addEventListener_def
  sendCommand_def command_def hexdigits_def

lemmas json_defs =
  payload_def stringify_object_def json_quote_def json_char_def hexdigits_def string_of_int_def

lemma world_A_eq:
  \<open>world_A =
     \<lparr>players = [0 \<mapsto> player_A], messageHandlers = [''c0'' \<mapsto> 0],
      attachedListeners = {''https://www.youtube.com''}, window_listeners = 1, id_counter = 1,
      fresh = 102\<rparr>\<close>
  by (simp add: player_A_def world_A_def construct_defs)

lemma player_A_eq:
  \<open>player_A =
     \<lparr>self = 0, this_id = ''c0'',
      options =
        \<lparr>opt_id = ''c0'', videoId = ''abc'', width = Num 640, height = Num 390,
         title = ''video player'', host = ''https://www.youtube.com'', opt_events = [],
         playerVars = []\<rparr>,
      originalElement =
        \<lparr>node = 100, tagName = ''DIV'', attributes = [(''id'', ''player'')],
         parentNode = None, isConnected = False, load_listeners = []\<rparr>,
      iframe =
        \<lparr>node = 101, tagName = ''IFRAME'',
         attributes =
           [(''frameborder'', ''0''), (''allowfullscreen'', ''1''),
            (''title'', ''YouTube video player''), (''width'', ''640''), (''height'', ''390''),
            (''src'', ''https://www.youtube.com/embed/abc?enablejsapi=1''),
            (''id'', ''widgetc0'')],
         parentNode = Some 1, isConnected = True, load_listeners = [EmitListening 0]\<rparr>,
      messageQueue = [], ready = False, pollReadiness = Some 1, info = Obj [],
      events = Map.empty, arrays = (\<lambda>list. []), next_array = 0,
      posted =
        [(''{"event":"listening","id":"c0","channel":"widget"}'', ''https://www.youtube.com'')],
      console = [], invoked = []\<rparr>\<close>
  by (simp add: player_A_def world_A_def construct_defs json_defs)


lemma player_F_eq:
  \<open>player_F =
     \<lparr>self = 0, this_id = ''c0'',
      options =
        \<lparr>opt_id = ''c0'', videoId = [], width = Num 640, height = Num 390,
         title = ''video player'', host = ''https://www.youtube.com'', opt_events = [],
         playerVars = []\<rparr>,
      originalElement =
        \<lparr>node = 102, tagName = ''IFRAME'',
         attributes =
           [(''src'', ''https://www.youtube.com/embed/abc?enablejsapi=1''), (''id'', ''widgetc0'')],
         parentNode = Some 1, isConnected = True, load_listeners = []\<rparr>,
      iframe =
        \<lparr>node = 102, tagName = ''IFRAME'',
         attributes =
           [(''src'', ''https://www.youtube.com/embed/abc?enablejsapi=1''), (''id'', ''widgetc0'')],
         parentNode = Some 1, isConnected = True, load_listeners = [EmitListening 0]\<rparr>,
      messageQueue = [], ready = False, pollReadiness = Some 1, info = Obj [],
      events = Map.empty, arrays = (\<lambda>list. []), next_array = 0,
      posted =
        [(''{"event":"listening","id":"c0","channel":"widget"}'', ''https://www.youtube.com'')],
      console = [], invoked = []\<rparr>\<close>
  by (simp add: player_F_def construct_defs json_defs)

lemma player_A_destroyed_fields:
  "ready player_A_destroyed"
  "events player_A_destroyed = Map.empty"
  "messageQueue player_A_destroyed = []"
  "isConnected (iframe player_A_destroyed) = False"
  \<open>posted player_A_destroyed =
     [(''{"event":"listening","id":"c0","channel":"widget"}'', ''https://www.youtube.com'')]\<close>
  "console player_A_destroyed = []"
  by (simp_all add: player_A_destroyed_def destroy_frame_def Let_def stopPolling_def
        handleMessage_def onReady_message_def emit_def player_A_eq)

section \<open>The pending queue and readiness\<close>





text \<open>
  C3 (amended). A command issued through the command surface (every such method is one
  call of \<open>#sendCommand\<close>) is appended to the pending queue when the instance is not
  ready, and is posted on the transport at once when the instance is ready and its frame
  has a content window; in both cases in exactly one of the two ways. When the instance is
  ready and the frame has no content window, the command is neither queued nor posted:
  the frame is written to the console.
\<close>

theorem command_queued_or_posted:
  "(\<not> ready p \<longrightarrow>
      messageQueue (sendCommand f a p) = messageQueue p @ [command f a]
    \<and> posted (sendCommand f a p) = posted p
    \<and> console (sendCommand f a p) = console p)
   \<and> (ready p \<and> contentWindow (iframe p) \<longrightarrow>
      messageQueue (sendCommand f a p) = messageQueue p
    \<and> posted (sendCommand f a p) = posted p @ [wire p (command f a)]
    \<and> console (sendCommand f a p) = console p)
   \<and> (ready p \<and> \<not> contentWindow (iframe p) \<longrightarrow>
      messageQueue (sendCommand f a p) = messageQueue p
    \<and> posted (sendCommand f a p) = posted p
    \<and> console (sendCommand f a p) = console p @ [iframe p])"
  by (simp add: sendCommand_queue sendCommand_posted sendCommand_console)

theorem command_queued_or_posted_witness:
  \<open>\<not> ready player_A
   \<and> messageQueue (stopVideo player_A) = [command ''stopVideo'' (Arr [])]
   \<and> posted (stopVideo player_A) = posted player_A
   \<and> ready (handleMessage onReady_message player_A)
   \<and> contentWindow (iframe (handleMessage onReady_message player_A))
   \<and> messageQueue (stopVideo (handleMessage onReady_message player_A)) = []
   \<and> posted (stopVideo (handleMessage onReady_message player_A)) =
       [(''{"event":"listening","id":"c0","channel":"widget"}'', ''https://www.youtube.com''),
        (''{"event":"command","func":"stopVideo","args":[],"id":"c0","channel":"widget"}'',
         ''https://www.youtube.com'')]
   \<and> ready player_A_destroyed \<and> \<not> contentWindow (iframe player_A_destroyed)
   \<and> console (stopVideo player_A_destroyed) = [iframe player_A_destroyed]\<close>
proof -
  let ?r = "handleMessage onReady_message player_A"
  have a: "\<not> ready player_A"
    by (simp add: player_A_eq)
  have b: "ready ?r \<and> contentWindow (iframe ?r)"
    by (simp add: handleMessage_keeps, simp add: player_A_eq contentWindow_def)
  have c: "ready player_A_destroyed \<and> \<not> contentWindow (iframe player_A_destroyed)"
    by (simp add: player_A_destroyed_fields contentWindow_def)
  have d: "dispatched onReady_message player_A = []"
    by (rule dispatched_no_events) (simp add: player_A_eq)
  have r: \<open>messageQueue ?r = [] \<and> posted ?r =
      [(''{"event":"listening","id":"c0","channel":"widget"}'', ''https://www.youtube.com'')]\<close>
    by (simp add: handleMessage_keeps handleMessage_undispatched [OF d],
        simp add: player_A_eq contentWindow_def)
  have w: \<open>wire ?r (command ''stopVideo'' (Arr [])) =
      (''{"event":"command","func":"stopVideo","args":[],"id":"c0","channel":"widget"}'',
       ''https://www.youtube.com'')\<close>
    by (simp add: wire_def command_def json_defs handleMessage_keeps player_A_eq)
  show ?thesis
    using command_queued_or_posted [of player_A "''stopVideo''" "Arr []"]
      command_queued_or_posted [of ?r "''stopVideo''" "Arr []"]
      command_queued_or_posted [of player_A_destroyed "''stopVideo''" "Arr []"]
      a b c r w
    by (simp add: stopVideo_def player_A_destroyed_fields player_A_eq)
qed

text \<open>
  C3 as stated fails: the first player has become ready and was then destroyed, so its
  frame is out of the page. \<open>playVideo()\<close> leaves the queue empty and posts nothing.
\<close>

theorem command_dropped_without_window:
  "ready player_A_destroyed
   \<and> messageQueue player_A_destroyed = []
   \<and> messageQueue (playVideo player_A_destroyed) = []
   \<and> posted (playVideo player_A_destroyed) = posted player_A_destroyed"
  by (simp add: playVideo_def sendCommand_queue sendCommand_posted player_A_destroyed_fields
        contentWindow_def)

text \<open>
  C5. Once an inbound message has been handled, whatever happens to the instance
  afterwards (commands, listener calls, further messages, the interval, frame loads,
  destroy, the frame being moved), the instance is ready, the interval handle is cleared,
  and the queue is empty; a firing of the interval then does nothing.
\<close>

theorem readiness_is_monotonic:
  "ready (run acts (handleMessage d p))
   \<and> pollReadiness (run acts (handleMessage d p)) = None
   \<and> messageQueue (run acts (handleMessage d p)) = []
   \<and> messageQueue (sendCommand f a (run acts (handleMessage d p))) = []
   \<and> interval_fires (run acts (handleMessage d p)) = run acts (handleMessage d p)"
proof -
  have "ready (run acts (handleMessage d p)) \<and> pollReadiness (run acts (handleMessage d p)) = None
      \<and> messageQueue (run acts (handleMessage d p)) = []"
    by (rule run_stays_ready) (simp_all add: handleMessage_keeps)
  then show ?thesis
    by (simp add: sendCommand_queue interval_fires_def)
qed

section \<open>The state snapshot\<close>

text \<open>
  C4. Handling an \<open>infoDelivery\<close> message merges the message's \<open>info\<close> into the snapshot:
  a field the message carries takes the message's value, every other field keeps its old
  value, and a getter reads the merged value. Handling an \<open>initialDelivery\<close> message
  replaces the snapshot by the message's \<open>info\<close>. (Property names are unique within the
  old snapshot and within the message, as in every object.)
\<close>

theorem state_delivery_merges_or_replaces:
  "(js_get d ''event'' = Str ''infoDelivery'' \<and> unique_names (info p)
      \<and> unique_names (js_get d ''info'') \<longrightarrow>
        (\<forall>k. field (info (handleMessage d p)) k =
              (case field (js_get d ''info'') k of
                 Some v \<Rightarrow> Some v
               | None \<Rightarrow> field (info p) k))
      \<and> (\<forall>k. read_info k (handleMessage d p) =
              Inr (case field (info (handleMessage d p)) k of Some v \<Rightarrow> v | None \<Rightarrow> Undefined))
      \<and> unique_names (info (handleMessage d p)))
   \<and> (js_get d ''event'' = Str ''initialDelivery'' \<longrightarrow>
        info (handleMessage d p) = js_get d ''info'')"
proof -
  have merge: "info (handleMessage d p) = spread2 (info p) (js_get d ''info'')"
    if "js_get d ''event'' = Str ''infoDelivery''"
    using that by (simp add: handleMessage_flushed Let_def flushed_keeps)
  have replace: "info (handleMessage d p) = js_get d ''info''"
    if "js_get d ''event'' = Str ''initialDelivery''"
    using that by (simp add: handleMessage_flushed Let_def)
  have fields: "field (spread2 (info p) (js_get d ''info'')) k =
      (case field (js_get d ''info'') k of Some v \<Rightarrow> Some v | None \<Rightarrow> field (info p) k)"
    if "unique_names (info p)" and "unique_names (js_get d ''info'')" for k
    using field_spread2 [OF that, of k] by (simp add: map_add_def)
  have getter: "read_info k (q\<lparr>info := spread2 a b\<rparr>) =
      Inr (case field (spread2 a b) k of Some v \<Rightarrow> v | None \<Rightarrow> Undefined)" for k q a b
    by (simp add: read_info_def spread2_def field_def)
  have getter': "read_info k (handleMessage d p) =
      Inr (case field (info (handleMessage d p)) k of Some v \<Rightarrow> v | None \<Rightarrow> Undefined)"
    if "js_get d ''event'' = Str ''infoDelivery''" for k
    using that merge [OF that] by (simp add: read_info_def spread2_def field_def)
  show ?thesis
    using merge replace fields getter' unique_names_spread2 by simp
qed

theorem state_delivery_merges_or_replaces_witness:
  "js_get muted_message ''event'' = Str ''infoDelivery''
   \<and> unique_names (info (handleMessage volume_message player_A))
   \<and> unique_names (js_get muted_message ''info'')
   \<and> getVolume (handleMessage muted_message (handleMessage volume_message player_A)) = Inr (Num 50)
   \<and> isMuted (handleMessage muted_message (handleMessage volume_message player_A)) = Inr (Bool True)
   \<and> getDuration (handleMessage muted_message (handleMessage volume_message player_A)) = Inr Undefined
   \<and> js_get initial_message ''event'' = Str ''initialDelivery''
   \<and> info (handleMessage initial_message (handleMessage volume_message player_A)) =
       Obj [(''duration'', Num 212)]"
proof -
  let ?p = "handleMessage volume_message player_A"
  have v: "info ?p = Obj [(''volume'', Num 50)]"
    by (simp add: handleMessage_flushed Let_def flushed_keeps volume_message_def spread2_def
          player_A_eq)
  have h: "js_get muted_message ''event'' = Str ''infoDelivery'' \<and> unique_names (info ?p)
      \<and> unique_names (js_get muted_message ''info'')"
    by (simp add: v muted_message_def unique_names_def)
  have i: "js_get initial_message ''event'' = Str ''initialDelivery''"
    by (simp add: initial_message_def)
  have f: "field (info ?p) ''volume'' = Some (Num 50)" "field (info ?p) ''muted'' = None"
    "field (info ?p) ''duration'' = None"
    "field (js_get muted_message ''info'') ''volume'' = None"
    "field (js_get muted_message ''info'') ''muted'' = Some (Bool True)"
    "field (js_get muted_message ''info'') ''duration'' = None"
    by (simp_all add: v field_def muted_message_def)
  from state_delivery_merges_or_replaces [of muted_message ?p] h
  have m: "field (info (handleMessage muted_message ?p)) k =
        (case field (js_get muted_message ''info'') k of
           Some v \<Rightarrow> Some v | None \<Rightarrow> field (info ?p) k)"
    and r: "read_info k (handleMessage muted_message ?p) =
        Inr (case field (info (handleMessage muted_message ?p)) k of
               Some v \<Rightarrow> v | None \<Rightarrow> Undefined)" for k
    by simp_all
  from state_delivery_merges_or_replaces [of initial_message ?p] i
  have "info (handleMessage initial_message ?p) = js_get initial_message ''info''"
    by simp
  then show ?thesis
    using h i by (simp add: getVolume_def isMuted_def getDuration_def r m f initial_message_def)
qed

section \<open>Event subscription\<close>


lemma arrays_ok_iff:
  "arrays_ok p \<longleftrightarrow>
     (\<forall>m m' l. events p m = Some l \<longrightarrow> events p m' = Some l \<longrightarrow> m = m')
   \<and> (\<forall>m l. events p m = Some l \<longrightarrow> l < next_array p)
   \<and> (\<forall>m l. events p m = Some l \<longrightarrow> arrays p l \<noteq> [])"
proof -
  have a: "inj_on (events p) (dom (events p)) \<longleftrightarrow>
      (\<forall>m m' l. events p m = Some l \<longrightarrow> events p m' = Some l \<longrightarrow> m = m')"
    by (auto simp: inj_on_def dom_def)
  have b: "ran (events p) \<subseteq> {..<next_array p} \<longleftrightarrow>
      (\<forall>m l. events p m = Some l \<longrightarrow> l < next_array p)"
    by (auto simp: ran_def)
  have c: "no_empty_lists p \<longleftrightarrow> (\<forall>m l. events p m = Some l \<longrightarrow> arrays p l \<noteq> [])"
  proof
    assume e: "no_empty_lists p"
    show "\<forall>m l. events p m = Some l \<longrightarrow> arrays p l \<noteq> []"
    proof (intro allI impI)
      fix m l
      assume "events p m = Some l"
      then have "listeners p m = Some (arrays p l)"
        by (simp add: listeners_def)
      with e show "arrays p l \<noteq> []"
        by (auto simp: no_empty_lists_def image_iff) metis
    qed
  next
    assume "\<forall>m l. events p m = Some l \<longrightarrow> arrays p l \<noteq> []"
    then show "no_empty_lists p"
      by (auto simp: no_empty_lists_def listeners_def image_iff map_option_case
            split: option.splits) metis
  qed
  show ?thesis
    by (simp only: arrays_ok_def a b c)
qed

lemma arrays_ok_sendCommand: "arrays_ok (sendCommand f a p) = arrays_ok p"
  by (simp add: arrays_ok_iff sendCommand_keeps)

lemma arrays_ok_setSize: "arrays_ok (setSize w h p) = arrays_ok p"
  by (simp add: arrays_ok_iff setSize_keeps)

lemma addEventListener_arrays_ok:
  assumes "arrays_ok p"
  shows "arrays_ok (addEventListener n h p)"
proof (cases "events p n")
  case None
  have fresh: "l \<noteq> next_array p" if "events p m = Some l" for m l
    using assms that by (auto simp: arrays_ok_iff)
  show ?thesis
    using assms None fresh
    by (auto simp: arrays_ok_iff addEventListener_def sendCommand_keeps less_Suc_eq
          split: if_splits)
next
  case (Some l)
  with assms show ?thesis
    by (auto simp: arrays_ok_iff addEventListener_def)
qed

lemma removeEventListener_arrays_ok:
  assumes "arrays_ok p"
  shows "arrays_ok (removeEventListener n h p)"
proof (cases "events p n")
  case None
  with assms show ?thesis
    by (simp add: removeEventListener_def)
next
  case (Some l)
  have other: "l' \<noteq> l" if "events p m = Some l'" "m \<noteq> n" for m l'
    using assms that Some by (auto simp: arrays_ok_iff)
  show ?thesis
    using assms Some other
    by (auto simp: arrays_ok_iff removeEventListener_def Let_def sendCommand_keeps
          split: if_splits)
qed

lemma perform_arrays_ok: "arrays_ok p \<Longrightarrow> arrays_ok (perform h0 c p)"
  by (cases c)
     (simp_all add: arrays_ok_sendCommand arrays_ok_setSize addEventListener_arrays_ok
        removeEventListener_arrays_ok)

lemma fold_perform_arrays_ok: "arrays_ok p \<Longrightarrow> arrays_ok (fold (perform h0) cs p)"
  by (induction cs arbitrary: p) (simp_all add: perform_arrays_ok)

lemma arrays_ok_invoked: "arrays_ok (p\<lparr>invoked := v\<rparr>) = arrays_ok p"
  by (simp add: arrays_ok_iff)

lemma forEach_arrays_ok: "arrays_ok p \<Longrightarrow> arrays_ok (forEach n k list ev p)"
  by (induction n arbitrary: k p)
     (simp_all add: Let_def fold_perform_arrays_ok arrays_ok_invoked)

lemma arrays_ok_flushed: "arrays_ok (flushed p) = arrays_ok p"
  by (simp add: arrays_ok_iff flushed_keeps)

lemma arrays_ok_info: "arrays_ok (p\<lparr>info := i\<rparr>) = arrays_ok p"
  by (simp add: arrays_ok_iff)

lemma handleMessage_arrays_ok: "arrays_ok p \<Longrightarrow> arrays_ok (handleMessage d p)"
  by (simp add: handleMessage_flushed Let_def emit_def arrays_ok_flushed arrays_ok_info
        forEach_arrays_ok split: option.splits jsval.splits)

lemma step_arrays_ok: "arrays_ok p \<Longrightarrow> arrays_ok (step a p)"
proof (cases a)
  case (AddEventListener n h)
  then show "arrays_ok p \<Longrightarrow> ?thesis"
    by (simp add: addEventListener_arrays_ok)
next
  case (RemoveEventListener n h)
  then show "arrays_ok p \<Longrightarrow> ?thesis"
    by (simp add: removeEventListener_arrays_ok)
next
  case (Message d)
  then show "arrays_ok p \<Longrightarrow> ?thesis"
    by (simp add: handleMessage_arrays_ok)
qed (simp_all add: arrays_ok_iff sendCommand_keeps setSize_keeps
       interval_fires_def emitListening_keeps frame_loads_def fold_run_callback_keeps
       destroy_frame_keeps)

lemma run_arrays_ok: "arrays_ok p \<Longrightarrow> arrays_ok (run acts p)"
  unfolding run_def by (induction acts arbitrary: p) (simp_all add: step_arrays_ok)

text \<open>What the two methods do to the handlers registered for each name.\<close>

lemma addEventListener_listeners:
  assumes "arrays_ok p"
  shows "listeners (addEventListener n h p) =
           (listeners p)(n \<mapsto> (case listeners p n of None \<Rightarrow> [] | Some hs \<Rightarrow> hs) @ [h])"
proof (cases "events p n")
  case None
  have fresh: "l \<noteq> next_array p" if "events p m = Some l" for m l
    using assms that by (auto simp: arrays_ok_iff)
  show ?thesis
    using None fresh
    by (auto simp: listeners_def addEventListener_def sendCommand_keeps fun_eq_iff
          map_option_case split: option.splits)
next
  case (Some l)
  have other: "l' \<noteq> l" if "events p m = Some l'" "m \<noteq> n" for m l'
    using assms that Some by (auto simp: arrays_ok_iff)
  show ?thesis
    using Some other
    by (auto simp: listeners_def addEventListener_def fun_eq_iff map_option_case
          split: option.splits)
qed














section \<open>Outbound wire messages\<close>

text \<open>
  C7 at \<open>mute()\<close> and \<open>unMute()\<close> on a ready player: \<open>#sendCommand\<close> is called without
  \<open>args\<close>, the property is \<open>undefined\<close>, and \<open>JSON.stringify\<close> leaves it out, so the
  posted text has no \<open>args\<close> field. \<open>playVideo()\<close>, which passes \<open>[]\<close>, posts
  \<open>"args":[]\<close>.
\<close>

theorem mute_message_has_no_args:
  \<open>posted (mute player_A_ready) =
     posted player_A_ready
     @ [(''{"event":"command","func":"mute","id":"c0","channel":"widget"}'',
         ''https://www.youtube.com'')]
   \<and> posted (unMute player_A_ready) =
     posted player_A_ready
     @ [(''{"event":"command","func":"unMute","id":"c0","channel":"widget"}'',
         ''https://www.youtube.com'')]
   \<and> posted (playVideo player_A_ready) =
     posted player_A_ready
     @ [(''{"event":"command","func":"playVideo","args":[],"id":"c0","channel":"widget"}'',
         ''https://www.youtube.com'')]\<close>
proof -
  have r: "ready player_A_ready" "contentWindow (iframe player_A_ready)"
    "this_id player_A_ready = ''c0''" "host (options player_A_ready) = ''https://www.youtube.com''"
    by (simp_all add: player_A_ready_def handleMessage_keeps,
        simp_all add: player_A_eq contentWindow_def)
  show ?thesis
    by (simp add: mute_def unMute_def playVideo_def sendCommand_posted r wire_def command_def
          json_defs)
qed

section \<open>The load callback\<close>

lemma fold_run_callback_posted:
  assumes "contentWindow (iframe p)"
  shows "posted (fold run_callback cbs p) =
           posted p @ replicate (count_list cbs (EmitListening (self p))) (wire p listening)"
  using assms
proof (induction cbs arbitrary: p)
  case Nil
  then show ?case by simp
next
  case (Cons c cbs)
  let ?q = "run_callback c p"
  have k: "iframe ?q = iframe p" "self ?q = self p"
    by (simp_all add: run_callback_def emitListening_keeps split: callback.splits)
  have w: "wire ?q listening = wire p listening"
    by (rule wire_same) (simp_all add: run_callback_def emitListening_keeps split: callback.splits)
  have p: "posted ?q =
      (if c = EmitListening (self p) then posted p @ [wire p listening] else posted p)"
    using Cons.prems
    by (cases c) (simp add: run_callback_def emitListening_def sendMessage_posted listening_def)
  have "posted (fold run_callback cbs ?q) =
      posted ?q @ replicate (count_list cbs (EmitListening (self p))) (wire p listening)"
    using Cons.IH [of ?q] Cons.prems by (simp add: k w)
  then show ?case
    by (simp add: p)
qed

lemma step_load_registered: "load_registered (step a p) = load_registered p"
  by (simp add: load_registered_def step_keeps)

lemma run_load_registered: "load_registered (run acts p) = load_registered p"
  by (simp add: load_registered_def run_keeps)

text \<open>
  C10. The \<open>load\<close> callback registered by the constructor stays registered through
  everything that happens to the instance, the transition to ready and \<open>destroy()\<close>
  included. So whenever the frame's load completes later (the frame then has a content
  window), exactly one more \<open>listening\<close> probe is posted. \<open>destroy()\<close> of an adopted
  frame leaves the frame where it is.
\<close>

theorem load_probe_never_removed:
  assumes "load_registered p"
  shows "load_registered (run acts p)
       \<and> (contentWindow (iframe (run acts p)) \<longrightarrow>
            posted (frame_loads (run acts p)) = posted (run acts p) @ [wire p listening])
       \<and> (node (iframe (run acts p)) = node (originalElement (run acts p)) \<longrightarrow>
            iframe (step Destroy (run acts p)) = iframe (run acts p))"
proof -
  let ?s = "run acts p"
  have reg: "load_registered ?s"
    using assms by (simp add: run_load_registered)
  have w: "wire ?s listening = wire p listening"
    by (rule wire_same) (simp_all add: run_keeps)
  have load: "posted (frame_loads ?s) = posted ?s @ [wire p listening]"
    if "contentWindow (iframe ?s)"
    using fold_run_callback_posted [OF that, of "load_listeners (iframe ?s)"] reg
    by (simp add: frame_loads_def load_registered_def w)
  have stay: "iframe (step Destroy ?s) = iframe ?s"
    if "node (iframe ?s) = node (originalElement ?s)"
    using that by (simp add: destroy_frame_def Let_def stopPolling_keeps)
  show ?thesis
    using reg load stay by blast
qed

theorem load_probe_never_removed_witness:
  \<open>load_registered player_F
   \<and> ready (run [Message onReady_message, Destroy] player_F)
   \<and> contentWindow (iframe (run [Message onReady_message, Destroy] player_F))
   \<and> posted (run [Message onReady_message, Destroy] player_F) =
       [(''{"event":"listening","id":"c0","channel":"widget"}'', ''https://www.youtube.com'')]
   \<and> posted (frame_loads (run [Message onReady_message, Destroy] player_F)) =
       [(''{"event":"listening","id":"c0","channel":"widget"}'', ''https://www.youtube.com''),
        (''{"event":"listening","id":"c0","channel":"widget"}'', ''https://www.youtube.com'')]
   \<and> node (iframe (run [Message onReady_message] player_F)) =
       node (originalElement (run [Message onReady_message] player_F))
   \<and> iframe (step Destroy (run [Message onReady_message] player_F)) =
       iframe (run [Message onReady_message] player_F)\<close>
proof -
  let ?acts = "[Message onReady_message, Destroy]"
  have reg: "load_registered player_F"
    by (simp add: load_registered_def player_F_eq)
  have d: "dispatched onReady_message player_F = []"
    by (rule dispatched_no_events) (simp add: player_F_eq)
  have s: "ready (run ?acts player_F)" "contentWindow (iframe (run ?acts player_F))"
    \<open>posted (run ?acts player_F) =
       [(''{"event":"listening","id":"c0","channel":"widget"}'', ''https://www.youtube.com'')]\<close>
    "node (iframe (run [Message onReady_message] player_F)) =
       node (originalElement (run [Message onReady_message] player_F))"
    by (simp_all add: run_def destroy_frame_def Let_def stopPolling_keeps handleMessage_keeps
          handleMessage_undispatched [OF d],
        simp_all add: contentWindow_def player_F_eq)
  have w: \<open>wire player_F listening =
      (''{"event":"listening","id":"c0","channel":"widget"}'', ''https://www.youtube.com'')\<close>
    by (simp add: wire_def listening_def json_defs player_F_eq)
  show ?thesis
    using load_probe_never_removed [OF reg, of ?acts]
      load_probe_never_removed [OF reg, of "[Message onReady_message]"] reg s w
    by simp
qed

section \<open>The constructor and the router\<close>

lemma fold_addEventListener_keeps:
  "ready (fold (\<lambda>(name, h). addEventListener name h) evs p) = ready p"
  "pollReadiness (fold (\<lambda>(name, h). addEventListener name h) evs p) = pollReadiness p"
  "info (fold (\<lambda>(name, h). addEventListener name h) evs p) = info p"
  "iframe (fold (\<lambda>(name, h). addEventListener name h) evs p) = iframe p"
  "originalElement (fold (\<lambda>(name, h). addEventListener name h) evs p) = originalElement p"
  "options (fold (\<lambda>(name, h). addEventListener name h) evs p) = options p"
  "this_id (fold (\<lambda>(name, h). addEventListener name h) evs p) = this_id p"
  "self (fold (\<lambda>(name, h). addEventListener name h) evs p) = self p"
  "invoked (fold (\<lambda>(name, h). addEventListener name h) evs p) = invoked p"
  by (induction evs arbitrary: p; simp add: addEventListener_keeps split_def)+

lemma addEventListener_posted_not_ready:
  "\<not> ready p \<Longrightarrow> posted (addEventListener n h p) = posted p"
  by (simp add: addEventListener_def sendCommand_posted split: option.splits)

lemma fold_addEventListener_posted:
  "\<not> ready p \<Longrightarrow> posted (fold (\<lambda>(name, h). addEventListener name h) evs p) = posted p"
  by (induction evs arbitrary: p)
     (simp_all add: addEventListener_posted_not_ready addEventListener_keeps split_def)

lemma fold_addEventListener_arrays_ok:
  "arrays_ok p \<Longrightarrow> arrays_ok (fold (\<lambda>(name, h). addEventListener name h) evs p)"
  by (induction evs arbitrary: p) (simp_all add: addEventListener_arrays_ok split_def)

lemma addEventListener_registers:
  "arrays_ok p \<Longrightarrow> \<exists>hs. listeners (addEventListener n h p) n = Some hs \<and> h \<in> set hs"
  by (simp add: addEventListener_listeners)

lemma addEventListener_keeps_registered:
  assumes "arrays_ok p" and "listeners p n = Some hs" and "h \<in> set hs"
  shows "\<exists>hs'. listeners (addEventListener n' h' p) n = Some hs' \<and> h \<in> set hs'"
  using assms by (auto simp: addEventListener_listeners)

lemma fold_addEventListener_keeps_registered:
  assumes "arrays_ok p" and "listeners p n = Some hs" and "h \<in> set hs"
  shows "\<exists>hs'. listeners (fold (\<lambda>(name, h). addEventListener name h) evs p) n = Some hs'
           \<and> h \<in> set hs'"
  using assms
proof (induction evs arbitrary: p hs)
  case Nil
  then show ?case by simp
next
  case (Cons e evs)
  obtain n' h' where e: "e = (n', h')" by (cases e)
  obtain hs' where "listeners (addEventListener n' h' p) n = Some hs'" and "h \<in> set hs'"
    using addEventListener_keeps_registered [OF Cons.prems] by blast
  from Cons.IH [OF addEventListener_arrays_ok [OF Cons.prems(1)] this] e show ?case by simp
qed

lemma fold_addEventListener_registers:
  assumes "arrays_ok p" and "(n, h) \<in> set evs"
  shows "\<exists>hs. listeners (fold (\<lambda>(name, h). addEventListener name h) evs p) n = Some hs
           \<and> h \<in> set hs"
  using assms
proof (induction evs arbitrary: p)
  case Nil
  then show ?case by simp
next
  case (Cons e evs)
  obtain n' h' where e: "e = (n', h')" by (cases e)
  have ok: "arrays_ok (addEventListener n' h' p)"
    using Cons.prems(1) by (rule addEventListener_arrays_ok)
  show ?case
  proof (cases "e = (n, h)")
    case True
    obtain hs where "listeners (addEventListener n h p) n = Some hs" and "h \<in> set hs"
      using addEventListener_registers [OF Cons.prems(1)] by blast
    from fold_addEventListener_keeps_registered
           [OF addEventListener_arrays_ok [OF Cons.prems(1)] this] True
    show ?thesis by simp
  next
    case False
    with Cons.prems have "(n, h) \<in> set evs" by simp
    from Cons.IH [OF ok this] e show ?thesis by simp
  qed
qed

lemma build_player_keeps:
  "self (build_player this timer n opts e) = this"
  "this_id (build_player this timer n opts e) = opt_id opts"
  "options (build_player this timer n opts e) = opts"
  "\<not> ready (build_player this timer n opts e)"
  "pollReadiness (build_player this timer n opts e) = Some timer"
  "EmitListening this \<in> set (load_listeners (iframe (build_player this timer n opts e)))"
  by (simp_all add: build_player_def Let_def new_player_def fold_addEventListener_keeps
        emitListening_keeps split: prod.splits)

lemma build_player_arrays_ok: "arrays_ok (build_player this timer n opts e)"
proof -
  have "arrays_ok (q\<lparr>pollReadiness := x, iframe := y\<rparr>)"
    if "events q = Map.empty" for q x y
    using that by (simp add: arrays_ok_iff)
  then show ?thesis
    by (simp add: build_player_def Let_def new_player_def emitListening_keeps
          fold_addEventListener_arrays_ok split: prod.splits)
qed

lemma build_player_events:
  assumes "(name, h) \<in> set (opt_events opts)"
  shows "\<exists>hs. listeners (build_player this timer n opts e) name = Some hs \<and> h \<in> set hs"
proof -
  have "arrays_ok (q\<lparr>pollReadiness := x, iframe := y\<rparr>)"
    if "events q = Map.empty" for q x y
    using that by (simp add: arrays_ok_iff)
  then show ?thesis
    using assms
    by (simp add: build_player_def Let_def new_player_def emitListening_keeps
          fold_addEventListener_registers split: prod.splits)
qed

lemma construct_unresolved:
  "resolve doc tgt = None \<Longrightarrow>
     construct doc tgt g w = (Inl TargetMustBeElement, w\<lparr>id_counter := id_counter w + 1\<rparr>)"
  by (simp add: construct_def Let_def)

lemma construct_resolved:
  assumes "resolve doc tgt = Some e"
  shows "construct doc tgt g w =
    (let opts = merge_options (defaults (id_counter w)) g;
         n = max (fresh w + 2) (node e + 1);
         w' = attachGlobalListener (host opts)
                (w\<lparr>id_counter := id_counter w + 1, fresh := n + 1,
                   players := (players w)(fresh w \<mapsto> build_player (fresh w) (fresh w + 1) n opts e)\<rparr>)
     in if messageHandlers w (opt_id opts) \<noteq> None
        then (Inl (DuplicatePlayerId (opt_id opts)), w')
        else (Inr (fresh w), w'\<lparr>messageHandlers := (messageHandlers w)(opt_id opts \<mapsto> fresh w)\<rparr>))"
  using assms by (simp add: construct_def Let_def attachGlobalListener_def)

lemma construct_players:
  assumes "resolve doc tgt = Some e"
  shows "players (snd (construct doc tgt g w)) =
    (players w)(fresh w \<mapsto>
       build_player (fresh w) (fresh w + 1) (max (fresh w + 2) (node e + 1))
         (merge_options (defaults (id_counter w)) g) e)"
  by (simp add: construct_resolved [OF assms] Let_def attachGlobalListener_def)

subsection \<open>The trusted origins are the hosts of the players\<close>










lemma message_listener_window_listeners:
  "window_listeners (message_listener ev w) = window_listeners w"
  by (simp add: message_listener_def split: option.splits jsval.splits)












subsection \<open>What the constructor has done when it throws\<close>

lemma build_player_posted:
  "posted (build_player this timer n opts e) =
     (if contentWindow (iframe (build_player this timer n opts e))
      then [wire (build_player this timer n opts e) listening] else [])"
proof -
  have "wire (fold (\<lambda>(name, h). addEventListener name h) evs q) d = wire q' d"
    if "this_id q = this_id q'" and "options q = options q'" for evs q q' d
    by (rule wire_same) (simp_all add: fold_addEventListener_keeps that)
  then show ?thesis
    by (simp add: build_player_def Let_def new_player_def fold_addEventListener_keeps
          fold_addEventListener_posted emitListening_def sendMessage_def contentWindow_def
          listening_def wire_def payload_def split: prod.splits)
qed

text \<open>
  When the target resolves and the identifier collides with a live instance, the
  constructor throws the duplicate-identifier error as its last step before the
  registration. The router's map of handlers is left as it was and no other player object
  is touched; but the new object exists with the interval set and its \<open>load\<close> callback
  registered, the first probe has been posted (when the frame has a content window), every
  initial event callback is registered on it, and the new host is trusted by the router.
\<close>

lemma construct_duplicate:
  assumes "resolve doc tgt = Some e"
    and "messageHandlers w (opt_id (merge_options (defaults (id_counter w)) g)) \<noteq> None"
  shows "fst (construct doc tgt g w) =
           Inl (DuplicatePlayerId (opt_id (merge_options (defaults (id_counter w)) g)))
       \<and> messageHandlers (snd (construct doc tgt g w)) = messageHandlers w
       \<and> attachedListeners (snd (construct doc tgt g w)) =
           insert (host (merge_options (defaults (id_counter w)) g)) (attachedListeners w)
       \<and> (\<forall>r. r \<noteq> fresh w \<longrightarrow> players (snd (construct doc tgt g w)) r = players w r)
       \<and> (\<exists>p. players (snd (construct doc tgt g w)) (fresh w) = Some p
              \<and> pollReadiness p = Some (fresh w + 1)
              \<and> EmitListening (fresh w) \<in> set (load_listeners (iframe p))
              \<and> posted p = (if contentWindow (iframe p) then [wire p listening] else [])
              \<and> (\<forall>(name, h) \<in> set (opt_events (merge_options (defaults (id_counter w)) g)).
                    \<exists>hs. listeners p name = Some hs \<and> h \<in> set hs))"
proof -
  define opts where "opts = merge_options (defaults (id_counter w)) g"
  define q where
    "q = build_player (fresh w) (fresh w + 1) (max (fresh w + 2) (node e + 1)) opts e"
  have r: "fst (construct doc tgt g w) = Inl (DuplicatePlayerId (opt_id opts))"
    and m: "messageHandlers (snd (construct doc tgt g w)) = messageHandlers w"
    and a: "attachedListeners (snd (construct doc tgt g w)) =
        insert (host opts) (attachedListeners w)"
    using assms(2)
    by (simp_all add: construct_resolved [OF assms(1)] Let_def attachGlobalListener_def opts_def)
  have p: "players (snd (construct doc tgt g w)) = (players w)(fresh w \<mapsto> q)"
    by (simp add: construct_players [OF assms(1)] q_def opts_def)
  have e: "\<forall>(name, h) \<in> set (opt_events opts). \<exists>hs. listeners q name = Some hs \<and> h \<in> set hs"
    using build_player_events by (auto simp: q_def)
  have "pollReadiness q = Some (fresh w + 1)
      \<and> EmitListening (fresh w) \<in> set (load_listeners (iframe q))
      \<and> posted q = (if contentWindow (iframe q) then [wire q listening] else [])"
    by (simp add: q_def build_player_keeps build_player_posted)
  with e r m a p show ?thesis
    unfolding opts_def [symmetric] by simp
qed

lemma duplicate_attempt_world:
  "fst duplicate_attempt = Inl (DuplicatePlayerId ''c0'')"
  "messageHandlers (snd duplicate_attempt) = [''c0'' \<mapsto> 0]"
  "attachedListeners (snd duplicate_attempt) =
     {''https://www.youtube.com'', ''https://evil.example''}"
  "window_listeners (snd duplicate_attempt) = 1"
  "players (snd duplicate_attempt) 0 = Some player_A"
  "players (snd duplicate_attempt) 102 = Some player_C"
  by (simp_all add: player_C_def duplicate_attempt_def world_A_eq construct_resolved resolve_def
        Let_def attachGlobalListener_def merge_options_def defaults_def or_default_def
        no_options_def iframe_in_page_def insert_commute)

lemma player_C_eq:
  "player_C =
     build_player 102 103 104
       (merge_options (defaults 1)
          (no_options\<lparr>given_id := Some ''c0'', given_host := Some ''https://evil.example'',
             given_events := Some [(''onReady'', quiet_handler)]\<rparr>))
       iframe_in_page"
  by (simp add: player_C_def duplicate_attempt_def construct_players resolve_def world_A_eq
        iframe_in_page_def)

text \<open>
  C6 at a second construction whose identifier is that of the live first player, with a
  host of its own and an \<open>onReady\<close> callback. The constructor throws the
  duplicate-identifier error, and the new instance is not registered in the router. But
  the check is the constructor's last step before the registration, so the throw comes
  after the handshake has begun and after the callbacks are registered: the new object has
  posted its first probe, set its interval and registered its \<open>load\<close> callback, and the
  \<open>onReady\<close> callback is registered on it, the subscribe command queued. The router has
  changed, too: the new host is trusted, and a message from that origin with the
  identifier \<open>c0\<close>, ignored before the failed construction, now makes the live first
  player ready. No message reaches the new object, so nothing stops its interval. The
  check of the target in the same constructor throws before any of these effects.
\<close>

theorem duplicate_id_throws_after_side_effects:
  \<open>messageHandlers world_A ''c0'' = Some 0
   \<and> fst duplicate_attempt = Inl (DuplicatePlayerId ''c0'')
   \<and> messageHandlers (snd duplicate_attempt) = messageHandlers world_A
   \<and> players (snd duplicate_attempt) 102 = Some player_C
   \<and> posted player_C =
       [(''{"event":"listening","id":"c0","channel":"widget"}'', ''https://evil.example'')]
   \<and> pollReadiness player_C = Some 103
   \<and> load_listeners (iframe player_C) = [EmitListening 102]
   \<and> listeners player_C ''onReady'' = Some [quiet_handler]
   \<and> messageQueue player_C = [command ''addEventListener'' (Arr [Str ''onReady''])]
   \<and> attachedListeners world_A = {''https://www.youtube.com''}
   \<and> attachedListeners (snd duplicate_attempt) =
       {''https://www.youtube.com'', ''https://evil.example''}
   \<and> players (receive stranger_message world_A) 0 = Some player_A
   \<and> \<not> ready player_A
   \<and> players (receive stranger_message (snd duplicate_attempt)) 0 =
       Some (handleMessage onReady_message player_A)
   \<and> ready (handleMessage onReady_message player_A)
   \<and> (\<forall>ev. players (receive ev (snd duplicate_attempt)) 102 = Some player_C)
   \<and> construct page (TargetId ''nowhere'')
        (no_options\<lparr>given_id := Some ''c0'', given_host := Some ''https://evil.example'',
           given_events := Some [(''onReady'', quiet_handler)]\<rparr>) world_A =
       (Inl TargetMustBeElement, world_A\<lparr>id_counter := 2\<rparr>)\<close>
proof -
  have c: \<open>posted player_C =
       [(''{"event":"listening","id":"c0","channel":"widget"}'', ''https://evil.example'')]
     \<and> pollReadiness player_C = Some 103
     \<and> load_listeners (iframe player_C) = [EmitListening 102]
     \<and> listeners player_C ''onReady'' = Some [quiet_handler]
     \<and> messageQueue player_C = [command ''addEventListener'' (Arr [Str ''onReady''])]\<close>
    by (simp add: player_C_eq build_player_def Let_def merge_options_def defaults_def
          or_default_def no_options_def iframe_in_page_def setAttribute_def new_player_def
          emitListening_def sendMessage_def contentWindow_def addEventListener_def
          sendCommand_def listeners_def json_defs)
  have a: "messageHandlers world_A ''c0'' = Some 0"
    "messageHandlers world_A = [''c0'' \<mapsto> 0]"
    "attachedListeners world_A = {''https://www.youtube.com''}"
    "window_listeners world_A = 1" "players world_A 0 = Some player_A" "\<not> ready player_A"
    by (simp_all add: world_A_eq, simp add: player_A_eq)
  have before: "players (receive stranger_message world_A) 0 = Some player_A"
    by (simp add: receive_def message_listener_def stranger_message_def a)
  have after: "players (receive stranger_message (snd duplicate_attempt)) 0 =
      Some (handleMessage onReady_message player_A)"
    by (simp add: receive_def message_listener_def stranger_message_def duplicate_attempt_world
          onReady_message_def)
  have never: "players (receive ev (snd duplicate_attempt)) 102 = Some player_C" for ev
    by (simp add: receive_def message_listener_def duplicate_attempt_world
          split: option.splits jsval.splits)
  have target: "construct page (TargetId ''nowhere'')
        (no_options\<lparr>given_id := Some ''c0'', given_host := Some ''https://evil.example'',
           given_events := Some [(''onReady'', quiet_handler)]\<rparr>) world_A =
       (Inl TargetMustBeElement, world_A\<lparr>id_counter := 2\<rparr>)"
    by (simp add: construct_unresolved resolve_def page_def) (simp add: world_A_eq)
  show ?thesis
    using c before after never target
    by (simp add: duplicate_attempt_world a handleMessage_keeps)
qed

subsection \<open>The dimensions of a created frame\<close>

lemma createIframe_dimensions:
  "getAttribute (createIframe n opts) ''width'' =
     (if truthy (width opts) then Some (js_String (width opts)) else None)"
  "getAttribute (createIframe n opts) ''height'' =
     (if truthy (height opts) then Some (js_String (height opts)) else None)"
  by (simp_all add: createIframe_def Let_def setAttribute_def createElement_def getAttribute_def
        map_of_set_prop)

lemma build_player_attribute:
  assumes "tagName e \<noteq> ''IFRAME''" and "k \<noteq> ''id''"
  shows "getAttribute (iframe (build_player this timer n opts e)) k =
           getAttribute (createIframe n opts) k"
  using assms
  by (simp add: build_player_def Let_def new_player_def fold_addEventListener_keeps
        emitListening_keeps replaceChild_opt_def setAttribute_def getAttribute_def
        map_of_set_prop split: prod.splits option.splits)

text \<open>
  C8 (amended). When the library creates the frame and the configuration gives no width
  and no height (absent, \<open>undefined\<close> or \<open>null\<close>), the defaults 640 and 390 of the
  constructor apply: the created frame carries \<open>width="640"\<close> and \<open>height="390"\<close>.
\<close>

theorem created_frame_has_default_dimensions:
  assumes "resolve doc tgt = Some e" and "tagName e \<noteq> ''IFRAME''"
    and "nullish (given_width g)" and "nullish (given_height g)"
  shows "\<exists>p. players (snd (construct doc tgt g w)) (fresh w) = Some p
           \<and> getAttribute (iframe p) ''width'' = Some ''640''
           \<and> getAttribute (iframe p) ''height'' = Some ''390''"
proof -
  define opts where "opts = merge_options (defaults (id_counter w)) g"
  have d: "width opts = Num 640" "height opts = Num 390"
    using assms(3,4) by (simp_all add: opts_def merge_options_def defaults_def)
  have s: "string_of_int 640 = ''640''" "string_of_int 390 = ''390''"
    by (simp_all add: string_of_int_def hexdigits_def)
  show ?thesis
    using assms(2)
    by (simp add: construct_players [OF assms(1)] build_player_attribute createIframe_dimensions
          d [unfolded opts_def] s)
qed

theorem created_frame_has_default_dimensions_witness:
  "resolve page (TargetElement div_detached) = Some div_detached
   \<and> tagName div_detached \<noteq> ''IFRAME''
   \<and> nullish (given_width no_options) \<and> nullish (given_height no_options)
   \<and> getAttribute (iframe player_D) ''width'' = Some ''640''
   \<and> getAttribute (iframe player_D) ''height'' = Some ''390''"
proof -
  have a: "resolve page (TargetElement div_detached) = Some div_detached"
    and b: "tagName div_detached \<noteq> ''IFRAME''"
    and c: "nullish (given_width no_options)" and d: "nullish (given_height no_options)"
    by (simp_all add: resolve_def div_detached_def no_options_def)
  from created_frame_has_default_dimensions [OF a b c d, of world0]
  have "getAttribute (iframe player_D) ''width'' = Some ''640''
      \<and> getAttribute (iframe player_D) ''height'' = Some ''390''"
    by (auto simp: player_D_def world0_def)
  then show ?thesis
    using a b c d by simp
qed

text \<open>
  C8 as stated fails: the first example player was constructed on a \<open>div\<close> with no width
  and no height in its options, and its created frame has both attributes.
\<close>

theorem created_frame_carries_dimensions:
  "tagName div_in_page \<noteq> ''IFRAME''
   \<and> given_width (no_options\<lparr>given_videoId := Some ''abc''\<rparr>) = Undefined
   \<and> given_height (no_options\<lparr>given_videoId := Some ''abc''\<rparr>) = Undefined
   \<and> node (iframe player_A) \<noteq> node (originalElement player_A)
   \<and> getAttribute (iframe player_A) ''width'' = Some ''640''
   \<and> getAttribute (iframe player_A) ''height'' = Some ''390''"
  by (simp add: div_in_page_def no_options_def player_A_eq getAttribute_def)

section \<open>Every player of a reachable page\<close>

lemma message_listener_players:
  assumes "players (message_listener ev w) r = Some p"
  shows "\<exists>q. players w r = Some q \<and> (p = q \<or> (\<exists>d. p = step (Message d) q))"
proof (cases "message_listener ev w = w")
  case True
  with assms show ?thesis by simp
next
  case False
  then obtain d r' q where w': "message_listener ev w = w\<lparr>players := (players w)(r' \<mapsto> handleMessage d q)\<rparr>"
    and q: "players w r' = Some q"
    by (auto simp: message_listener_def split: if_splits option.splits jsval.splits)
  show ?thesis
  proof (cases "r = r'")
    case True
    with assms w' q show ?thesis by auto
  next
    case False
    with assms w' show ?thesis by simp
  qed
qed

text \<open>
  A property that holds of the object the constructor builds and is kept by every action
  holds of every player of every reachable page.
\<close>

lemma reachable_players:
  assumes built: "\<And>this timer n opts e. P (build_player this timer n opts e)"
    and kept: "\<And>a p. P p \<Longrightarrow> P (step a p)"
    and "reachable w" and "players w r = Some p"
  shows "P p"
  using assms(3,4)
proof (induction arbitrary: r p rule: reachable.induct)
  case start
  then show ?case by (simp add: world0_def)
next
  case (constructed w doc tgt g)
  show ?case
  proof (cases "resolve doc tgt")
    case None
    with constructed show ?thesis by (simp add: construct_unresolved)
  next
    case (Some e)
    with constructed built show ?thesis
      by (cases "r = fresh w") (auto simp: construct_players)
  qed
next
  case (destroyed w r')
  show ?case
  proof (cases "players w r'")
    case None
    with destroyed show ?thesis by (simp add: destroy_def)
  next
    case (Some q)
    have "P q"
      using destroyed.IH Some by blast
    then have "P (step Destroy q)"
      by (rule kept)
    moreover have "players (snd (destroy r' w)) = (players w)(r' \<mapsto> step Destroy q)"
      using Some by (simp add: destroy_def Let_def split_def split: option.splits)
    ultimately show ?thesis
      using destroyed by (cases "r = r'") auto
  qed
next
  case (received w ev)
  have "\<forall>r p. players ((message_listener ev ^^ k) w) r = Some p \<longrightarrow> P p" for k
  proof (induction k)
    case 0
    then show ?case using received.IH by simp
  next
    case (Suc k)
    show ?case
    proof (intro allI impI)
      fix r p
      assume "players ((message_listener ev ^^ Suc k) w) r = Some p"
      then have "players (message_listener ev ((message_listener ev ^^ k) w)) r = Some p"
        by simp
      from message_listener_players [OF this] Suc kept show "P p"
        by blast
    qed
  qed
  with received.prems show ?case
    by (simp add: receive_def)
next
  case (acted w a r')
  show ?case
  proof (cases "players w r'")
    case None
    with acted show ?thesis by (simp add: act_def)
  next
    case (Some q)
    have "P q"
      using acted.IH Some by blast
    then have "P (step a q)"
      by (rule kept)
    moreover have "players (act r' a w) = (players w)(r' \<mapsto> step a q)"
      using Some by (simp add: act_def)
    ultimately show ?thesis
      using acted by (cases "r = r'") auto
  qed
qed

lemma reachable_arrays_ok:
  assumes "reachable w" and "players w r = Some p"
  shows "arrays_ok p"
  using build_player_arrays_ok step_arrays_ok assms
  by (rule reachable_players [where P = arrays_ok])

lemma build_player_load_registered:
  assumes "EmitListening this \<notin> set (load_listeners e)"
  shows "load_registered (build_player this timer n opts e)"
proof -
  have c: "count_list (load_listeners e) (EmitListening this) = 0"
    using assms by (simp add: count_list_0_iff)
  show ?thesis
    by (simp add: load_registered_def build_player_def Let_def new_player_def
          fold_addEventListener_keeps emitListening_keeps replaceChild_opt_def setAttribute_def
          createIframe_def createElement_def c split: prod.splits option.splits)
qed

end
